theory Spec2Isabelle
  imports Complex_Main
begin

section \<open>JavaScript numbers\<close>

text \<open>
  The calculation engine (\<^verbatim>\<open>server/calculations.ts\<close>) computes on JavaScript
  \<^verbatim>\<open>number\<close>s. A number is modelled as a mathematical real or one of the three special
  values the engine can produce or test for: \<^verbatim>\<open>Infinity\<close>, \<^verbatim>\<open>-Infinity\<close> and
  \<^verbatim>\<open>NaN\<close>. The operations of this section are exact on finite values; the rounding
  of a result to a double is a separate step (\<open>rd\<close>, below). Overflow to infinity and the
  sign of zero are not modelled (a division by zero takes the zero as \<^verbatim>\<open>+0\<close>).
\<close>

datatype number = Fin real | PInf | NInf | NaN

fun neg :: "number \<Rightarrow> number" where
  "neg (Fin x) = Fin (- x)"
| "neg PInf = NInf"
| "neg NInf = PInf"
| "neg NaN = NaN"

fun signed_inf :: "bool \<Rightarrow> number" where
  "signed_inf True = PInf"
| "signed_inf False = NInf"

instantiation number :: "{plus, minus, times, inverse, ord}"
begin

fun plus_number :: "number \<Rightarrow> number \<Rightarrow> number" where
  "plus_number (Fin x) (Fin y) = Fin (x + y)"
| "plus_number NaN b = NaN"
| "plus_number a NaN = NaN"
| "plus_number PInf NInf = NaN"
| "plus_number NInf PInf = NaN"
| "plus_number PInf b = PInf"
| "plus_number NInf b = NInf"
| "plus_number (Fin x) b = b"

definition minus_number :: "number \<Rightarrow> number \<Rightarrow> number" where
  "minus_number a b = a + neg b"

fun times_number :: "number \<Rightarrow> number \<Rightarrow> number" where
  "times_number (Fin x) (Fin y) = Fin (x * y)"
| "times_number NaN b = NaN"
| "times_number a NaN = NaN"
| "times_number (Fin x) PInf = (if x = 0 then NaN else signed_inf (0 < x))"
| "times_number (Fin x) NInf = (if x = 0 then NaN else signed_inf (x < 0))"
| "times_number PInf (Fin y) = (if y = 0 then NaN else signed_inf (0 < y))"
| "times_number NInf (Fin y) = (if y = 0 then NaN else signed_inf (y < 0))"
| "times_number PInf PInf = PInf"
| "times_number NInf NInf = PInf"
| "times_number PInf NInf = NInf"
| "times_number NInf PInf = NInf"

fun divide_number :: "number \<Rightarrow> number \<Rightarrow> number" where
  "divide_number (Fin x) (Fin y) =
     (if y = 0 then (if x = 0 then NaN else signed_inf (0 < x)) else Fin (x / y))"
| "divide_number NaN b = NaN"
| "divide_number a NaN = NaN"
| "divide_number (Fin x) b = Fin 0"
| "divide_number PInf (Fin y) = signed_inf (0 \<le> y)"
| "divide_number NInf (Fin y) = signed_inf (y < 0)"
| "divide_number a b = NaN"

fun inverse_number :: "number \<Rightarrow> number" where
  "inverse_number (Fin x) = (if x = 0 then PInf else Fin (1 / x))"
| "inverse_number NaN = NaN"
| "inverse_number a = Fin 0"

fun less_eq_number :: "number \<Rightarrow> number \<Rightarrow> bool" where
  "less_eq_number (Fin x) (Fin y) = (x \<le> y)"
| "less_eq_number NaN b = False"
| "less_eq_number a NaN = False"
| "less_eq_number NInf b = True"
| "less_eq_number a PInf = True"
| "less_eq_number a b = False"

fun less_number :: "number \<Rightarrow> number \<Rightarrow> bool" where
  "less_number (Fin x) (Fin y) = (x < y)"
| "less_number NaN b = False"
| "less_number a NaN = False"
| "less_number PInf b = False"
| "less_number a NInf = False"
| "less_number a b = True"

instance ..

end

text \<open>\<^verbatim>\<open>a === b\<close> on numbers: \<^verbatim>\<open>NaN\<close> equals nothing, itself included.\<close>

definition strict_eq :: "number \<Rightarrow> number \<Rightarrow> bool" where
  "strict_eq a b = (a \<noteq> NaN \<and> b \<noteq> NaN \<and> a = b)"

text \<open>Truthiness of a number: \<^verbatim>\<open>0\<close> and \<^verbatim>\<open>NaN\<close> are falsy.\<close>

definition truthy :: "number \<Rightarrow> bool" where
  "truthy a = (a \<noteq> Fin 0 \<and> a \<noteq> NaN)"

text \<open>
  \<^verbatim>\<open>x || d\<close> where \<^verbatim>\<open>x\<close> is an optional number (\<^verbatim>\<open>undefined\<close> or \<^verbatim>\<open>null\<close> is
  \<open>None\<close>): the default is taken when \<^verbatim>\<open>x\<close> is absent or falsy.
\<close>

definition or_else :: "number option \<Rightarrow> number \<Rightarrow> number" where
  "or_else x d = (case x of None \<Rightarrow> d | Some a \<Rightarrow> if truthy a then a else d)"

text \<open>\<^verbatim>\<open>Math.round\<close> rounds to the nearest integer, a tie towards \<^verbatim>\<open>+Infinity\<close>.\<close>

fun math_round :: "number \<Rightarrow> number" where
  "math_round (Fin x) = Fin (of_int \<lfloor>x + 1 / 2\<rfloor>)"
| "math_round a = a"

fun math_floor :: "number \<Rightarrow> number" where
  "math_floor (Fin x) = Fin (of_int \<lfloor>x\<rfloor>)"
| "math_floor a = a"

fun math_sqrt :: "number \<Rightarrow> number" where
  "math_sqrt (Fin x) = (if x < 0 then NaN else Fin (sqrt x))"
| "math_sqrt PInf = PInf"
| "math_sqrt a = NaN"

fun math_abs :: "number \<Rightarrow> number" where
  "math_abs (Fin x) = Fin \<bar>x\<bar>"
| "math_abs NInf = PInf"
| "math_abs a = a"

text \<open>\<^verbatim>\<open>Math.min(a, b)\<close>: \<^verbatim>\<open>NaN\<close> when either argument is.\<close>

definition math_min2 :: "number \<Rightarrow> number \<Rightarrow> number" where
  "math_min2 a b = (if a = NaN \<or> b = NaN then NaN else if a \<le> b then a else b)"

text \<open>\<^verbatim>\<open>Math.min(...xs)\<close>: \<^verbatim>\<open>Infinity\<close> on no argument.\<close>

fun math_min :: "number list \<Rightarrow> number" where
  "math_min [] = PInf"
| "math_min (x # xs) = math_min2 x (math_min xs)"

section \<open>The formula library in exact arithmetic (server/calculations.ts)\<close>

text \<open>
  The functions that the algebraic claims are about (round trip, monotonicity, the
  comparison of head and shell, the cases of the rates and of the remaining life), with
  every operation exact: what the source computes when no operation rounds. The next
  section has the whole engine with the rounding of each operation.
\<close>

definition MIN_NOMINAL_RATE :: number where
  "MIN_NOMINAL_RATE = Fin 0.001"

definition calculateShellMinimumThickness :: "number \<Rightarrow> number \<Rightarrow> number \<Rightarrow> number \<Rightarrow> number" where
  "calculateShellMinimumThickness pressure radius allowableStress jointEfficiency =
     (let denominator = (allowableStress * jointEfficiency) - (Fin 0.6 * pressure)
      in if denominator \<le> Fin 0 then PInf
         else (pressure * radius) / denominator)"

definition calculateHemisphericalHeadMinimumThickness :: "number \<Rightarrow> number \<Rightarrow> number \<Rightarrow> number \<Rightarrow> number" where
  "calculateHemisphericalHeadMinimumThickness pressure radius allowableStress jointEfficiency =
     (let denominator = (Fin 2 * allowableStress * jointEfficiency) - (Fin 0.2 * pressure)
      in if denominator \<le> Fin 0 then PInf
         else (pressure * radius) / denominator)"

definition calculateShellMAWP :: "number \<Rightarrow> number \<Rightarrow> number \<Rightarrow> number \<Rightarrow> number" where
  "calculateShellMAWP thickness radius allowableStress jointEfficiency =
     (let denominator = radius + (Fin 0.6 * thickness)
      in if denominator \<le> Fin 0 then Fin 0
         else (allowableStress * jointEfficiency * thickness) / denominator)"

definition calculateShortTermCorrosionRate :: "number \<Rightarrow> number \<Rightarrow> number \<Rightarrow> number" where
  "calculateShortTermCorrosionRate previousThickness actualThickness timeSpan =
     (if timeSpan \<le> Fin 0 then MIN_NOMINAL_RATE
      else let rate = (previousThickness - actualThickness) / timeSpan
           in if rate < Fin 0 then MIN_NOMINAL_RATE
              else if strict_eq rate (Fin 0) then MIN_NOMINAL_RATE
              else rate)"

definition calculateLongTermCorrosionRate :: "number \<Rightarrow> number \<Rightarrow> number \<Rightarrow> number" where
  "calculateLongTermCorrosionRate initialThickness actualThickness totalTimeSpan =
     (if totalTimeSpan \<le> Fin 0 then MIN_NOMINAL_RATE
      else let rate = (initialThickness - actualThickness) / totalTimeSpan
           in if rate < Fin 0 then MIN_NOMINAL_RATE
              else if strict_eq rate (Fin 0) then MIN_NOMINAL_RATE
              else rate)"

definition calculateRemainingLife :: "number \<Rightarrow> number \<Rightarrow> number \<Rightarrow> number" where
  "calculateRemainingLife actualThickness minimumThickness corrosionRate =
     (if corrosionRate \<le> Fin 0 then Fin 999
      else let corrosionAllowance = actualThickness - minimumThickness
           in if corrosionAllowance \<le> Fin 0 then Fin 0
              else corrosionAllowance / corrosionRate)"

section \<open>The engine with rounded arithmetic (server/calculations.ts)\<close>

text \<open>
  Every arithmetic operation of the source returns a double: the exact result, rounded.
  \<open>fl\<close> is that rounding of a real to a double, and \<open>rd fl\<close> applies it to a finite
  number. \<open>fl\<close> is an argument of the model. The theorems on this engine hold for every
  \<open>fl\<close>, some of them for every \<open>fl\<close> that is a rounding: monotone, idempotent, and
  exact on the integers up to \<open>2 ^ 53\<close>, as the rounding to the nearest double is. The
  identity is a rounding too, and with it the functions of this section are those of the
  exact arithmetic above. A decimal constant of the source is the double nearest to it
  (\<open>rd fl (Fin 0.6)\<close>); the integer constants are exact. The overflow of an operation
  on finite numbers to an infinity is not modelled.
\<close>

definition rd :: "(real \<Rightarrow> real) \<Rightarrow> number \<Rightarrow> number" where
  "rd fl a = (case a of Fin x \<Rightarrow> Fin (fl x) | _ \<Rightarrow> a)"

definition rounding :: "(real \<Rightarrow> real) \<Rightarrow> bool" where
  "rounding fl =
     (mono fl \<and> (\<forall>x. fl (fl x) = fl x)
      \<and> (\<forall>n::int. \<bar>n\<bar> \<le> 2 ^ 53 \<longrightarrow> fl (of_int n) = of_int n))"

definition MIN_NOMINAL_RATE_fl :: "(real \<Rightarrow> real) \<Rightarrow> number" where
  "MIN_NOMINAL_RATE_fl fl = rd fl (Fin 0.001)"

definition MAX_INSPECTION_INTERVAL :: number where
  "MAX_INSPECTION_INTERVAL = Fin 10"

definition calculateShellMinimumThickness_fl ::
  "(real \<Rightarrow> real) \<Rightarrow> number \<Rightarrow> number \<Rightarrow> number \<Rightarrow> number \<Rightarrow> number" where
  "calculateShellMinimumThickness_fl fl pressure radius allowableStress jointEfficiency =
     (let denominator =
            rd fl (rd fl (allowableStress * jointEfficiency) - rd fl (rd fl (Fin 0.6) * pressure))
      in if denominator \<le> Fin 0 then PInf
         else rd fl (rd fl (pressure * radius) / denominator))"

definition calculateEllipsoidalHeadMinimumThickness_fl ::
  "(real \<Rightarrow> real) \<Rightarrow> number \<Rightarrow> number \<Rightarrow> number \<Rightarrow> number \<Rightarrow> number" where
  "calculateEllipsoidalHeadMinimumThickness_fl fl pressure diameter allowableStress jointEfficiency =
     (let denominator =
            rd fl (rd fl (rd fl (Fin 2 * allowableStress) * jointEfficiency)
                   - rd fl (rd fl (Fin 0.2) * pressure))
      in if denominator \<le> Fin 0 then PInf
         else rd fl (rd fl (pressure * diameter) / denominator))"

text \<open>
  The optional \<^verbatim>\<open>knuckleRadius\<close> defaults to 6% of the crown radius, also when it is
  given as \<^verbatim>\<open>0\<close> (\<^verbatim>\<open>knuckleRadius || crownRadius * 0.06\<close>).
\<close>

definition calculateTorisphericalHeadMinimumThickness_fl ::
  "(real \<Rightarrow> real) \<Rightarrow> number \<Rightarrow> number \<Rightarrow> number \<Rightarrow> number \<Rightarrow> number option \<Rightarrow> number" where
  "calculateTorisphericalHeadMinimumThickness_fl fl pressure crownRadius allowableStress jointEfficiency knuckleRadius =
     (let r = or_else knuckleRadius (rd fl (crownRadius * rd fl (Fin 0.06)));
          M = rd fl (Fin 0.25 * rd fl (Fin 3 + rd fl (math_sqrt (rd fl (crownRadius / r)))));
          denominator =
            rd fl (rd fl (rd fl (Fin 2 * allowableStress) * jointEfficiency)
                   - rd fl (rd fl (Fin 0.2) * pressure))
      in if denominator \<le> Fin 0 then PInf
         else rd fl (rd fl (rd fl (pressure * crownRadius) * M) / denominator))"

definition calculateHemisphericalHeadMinimumThickness_fl ::
  "(real \<Rightarrow> real) \<Rightarrow> number \<Rightarrow> number \<Rightarrow> number \<Rightarrow> number \<Rightarrow> number" where
  "calculateHemisphericalHeadMinimumThickness_fl fl pressure radius allowableStress jointEfficiency =
     (let denominator =
            rd fl (rd fl (rd fl (Fin 2 * allowableStress) * jointEfficiency)
                   - rd fl (rd fl (Fin 0.2) * pressure))
      in if denominator \<le> Fin 0 then PInf
         else rd fl (rd fl (pressure * radius) / denominator))"

definition calculateShellMAWP_fl ::
  "(real \<Rightarrow> real) \<Rightarrow> number \<Rightarrow> number \<Rightarrow> number \<Rightarrow> number \<Rightarrow> number" where
  "calculateShellMAWP_fl fl thickness radius allowableStress jointEfficiency =
     (let denominator = rd fl (radius + rd fl (rd fl (Fin 0.6) * thickness))
      in if denominator \<le> Fin 0 then Fin 0
         else rd fl (rd fl (rd fl (allowableStress * jointEfficiency) * thickness) / denominator))"

definition calculateEllipsoidalHeadMAWP_fl ::
  "(real \<Rightarrow> real) \<Rightarrow> number \<Rightarrow> number \<Rightarrow> number \<Rightarrow> number \<Rightarrow> number" where
  "calculateEllipsoidalHeadMAWP_fl fl thickness diameter allowableStress jointEfficiency =
     (let denominator = rd fl (diameter + rd fl (rd fl (Fin 0.2) * thickness))
      in if denominator \<le> Fin 0 then Fin 0
         else rd fl (rd fl (rd fl (rd fl (Fin 2 * allowableStress) * jointEfficiency) * thickness)
                     / denominator))"

definition calculateHemisphericalHeadMAWP_fl ::
  "(real \<Rightarrow> real) \<Rightarrow> number \<Rightarrow> number \<Rightarrow> number \<Rightarrow> number \<Rightarrow> number" where
  "calculateHemisphericalHeadMAWP_fl fl thickness radius allowableStress jointEfficiency =
     (let denominator = rd fl (radius + rd fl (rd fl (Fin 0.2) * thickness))
      in if denominator \<le> Fin 0 then Fin 0
         else rd fl (rd fl (rd fl (rd fl (Fin 2 * allowableStress) * jointEfficiency) * thickness)
                     / denominator))"

subsection \<open>Corrosion rates, remaining life, inspection interval\<close>

definition calculateShortTermCorrosionRate_fl ::
  "(real \<Rightarrow> real) \<Rightarrow> number \<Rightarrow> number \<Rightarrow> number \<Rightarrow> number" where
  "calculateShortTermCorrosionRate_fl fl previousThickness actualThickness timeSpan =
     (if timeSpan \<le> Fin 0 then MIN_NOMINAL_RATE_fl fl
      else let rate = rd fl (rd fl (previousThickness - actualThickness) / timeSpan)
           in if rate < Fin 0 then MIN_NOMINAL_RATE_fl fl
              else if strict_eq rate (Fin 0) then MIN_NOMINAL_RATE_fl fl
              else rate)"

definition calculateLongTermCorrosionRate_fl ::
  "(real \<Rightarrow> real) \<Rightarrow> number \<Rightarrow> number \<Rightarrow> number \<Rightarrow> number" where
  "calculateLongTermCorrosionRate_fl fl initialThickness actualThickness totalTimeSpan =
     (if totalTimeSpan \<le> Fin 0 then MIN_NOMINAL_RATE_fl fl
      else let rate = rd fl (rd fl (initialThickness - actualThickness) / totalTimeSpan)
           in if rate < Fin 0 then MIN_NOMINAL_RATE_fl fl
              else if strict_eq rate (Fin 0) then MIN_NOMINAL_RATE_fl fl
              else rate)"

definition calculateRemainingLife_fl ::
  "(real \<Rightarrow> real) \<Rightarrow> number \<Rightarrow> number \<Rightarrow> number \<Rightarrow> number" where
  "calculateRemainingLife_fl fl actualThickness minimumThickness corrosionRate =
     (if corrosionRate \<le> Fin 0 then Fin 999
      else let corrosionAllowance = rd fl (actualThickness - minimumThickness)
           in if corrosionAllowance \<le> Fin 0 then Fin 0
              else rd fl (corrosionAllowance / corrosionRate))"

definition calculateNextInspectionInterval_fl :: "(real \<Rightarrow> real) \<Rightarrow> number \<Rightarrow> number" where
  "calculateNextInspectionInterval_fl fl remainingLife =
     (if remainingLife \<le> Fin 0 then Fin 0
      else let halfLife = rd fl (remainingLife / Fin 2)
           in math_min2 halfLife MAX_INSPECTION_INTERVAL)"

subsection \<open>The main calculation for one component\<close>

text \<open>
  \<^verbatim>\<open>CalculationInput\<close>. An optional field that is \<^verbatim>\<open>undefined\<close> is \<open>None\<close>. The
  component and head kinds are compared as strings by the engine, and the aggregation
  pipeline passes the vessel's head type as stored, so they are strings here.
\<close>

record CalculationInput =
  designPressure :: number
  designTemperature :: number
  insideDiameter :: number
  allowableStress :: number
  jointEfficiency :: number
  actualThickness :: number
  previousThickness :: "number option"
  nominalThickness :: "number option"
  corrosionAllowance :: "number option"
  timeSpan :: "number option"
  initialThickness :: "number option"
  totalTimeSpan :: "number option"
  componentType :: "string option"
  headType :: "string option"

datatype GoverningRate = LT | ST

text \<open>
  \<^verbatim>\<open>CalculationResult\<close>. Of the next inspection date only the calendar year is
  modelled: the current year advanced by the floor of the interval.
\<close>

record CalculationResult =
  minimumThickness :: number
  calculatedMAWP :: number
  corrosionRate :: number
  corrosionRateLT :: number
  corrosionRateST :: number
  governingRate :: GoverningRate
  governingRateReason :: string
  remainingLife :: number
  nextInspectionYears :: number
  nextInspectionDate :: number
  isBelowMinimum :: bool
  statusMessage :: string

text \<open>Lines 274-299: the minimum thickness by component and head type.\<close>

definition componentMinimumThickness :: "(real \<Rightarrow> real) \<Rightarrow> CalculationInput \<Rightarrow> number" where
  "componentMinimumThickness fl input =
     (let radius = rd fl (insideDiameter input / Fin 2);
          diameter = insideDiameter input
      in if componentType input = Some ''head'' then
           (if headType input = Some ''hemispherical'' then
              calculateHemisphericalHeadMinimumThickness_fl fl
                (designPressure input) radius (allowableStress input) (jointEfficiency input)
            else if headType input = Some ''torispherical'' then
              calculateTorisphericalHeadMinimumThickness_fl fl
                (designPressure input) diameter (allowableStress input) (jointEfficiency input) None
            else
              calculateEllipsoidalHeadMinimumThickness_fl fl
                (designPressure input) diameter (allowableStress input) (jointEfficiency input))
         else
           calculateShellMinimumThickness_fl fl
             (designPressure input) radius (allowableStress input) (jointEfficiency input))"

text \<open>Lines 301-317: the MAWP by component and head type.\<close>

definition componentMAWP :: "(real \<Rightarrow> real) \<Rightarrow> CalculationInput \<Rightarrow> number" where
  "componentMAWP fl input =
     (let radius = rd fl (insideDiameter input / Fin 2);
          diameter = insideDiameter input
      in if componentType input = Some ''head'' then
           (if headType input = Some ''hemispherical'' then
              calculateHemisphericalHeadMAWP_fl fl
                (actualThickness input) radius (allowableStress input) (jointEfficiency input)
            else
              calculateEllipsoidalHeadMAWP_fl fl
                (actualThickness input) diameter (allowableStress input) (jointEfficiency input))
         else
           calculateShellMAWP_fl fl
             (actualThickness input) radius (allowableStress input) (jointEfficiency input))"

text \<open>Lines 320-323: the defaults of the optional spans and thicknesses, by \<^verbatim>\<open>||\<close>.\<close>

definition resolvedTimeSpan :: "CalculationInput \<Rightarrow> number" where
  "resolvedTimeSpan input = or_else (timeSpan input) (Fin 10)"

definition resolvedTotalTimeSpan :: "CalculationInput \<Rightarrow> number" where
  "resolvedTotalTimeSpan input = or_else (totalTimeSpan input) (resolvedTimeSpan input)"

definition resolvedPreviousThickness :: "CalculationInput \<Rightarrow> number" where
  "resolvedPreviousThickness input =
     or_else (previousThickness input) (or_else (nominalThickness input) (actualThickness input))"

definition resolvedInitialThickness :: "CalculationInput \<Rightarrow> number" where
  "resolvedInitialThickness input =
     or_else (initialThickness input)
       (or_else (nominalThickness input) (resolvedPreviousThickness input))"

text \<open>Lines 325-331: the two rate functions, called on the resolved values.\<close>

definition componentRateST :: "(real \<Rightarrow> real) \<Rightarrow> CalculationInput \<Rightarrow> number" where
  "componentRateST fl input =
     calculateShortTermCorrosionRate_fl fl
       (resolvedPreviousThickness input) (actualThickness input) (resolvedTimeSpan input)"

definition componentRateLT :: "(real \<Rightarrow> real) \<Rightarrow> CalculationInput \<Rightarrow> number" where
  "componentRateLT fl input =
     calculateLongTermCorrosionRate_fl fl
       (resolvedInitialThickness input) (actualThickness input) (resolvedTotalTimeSpan input)"

text \<open>Lines 334-346: the governing rate, its tag and its reason.\<close>

definition selectGoverningRate :: "number \<Rightarrow> number \<Rightarrow> GoverningRate \<times> number \<times> string" where
  "selectGoverningRate rateLT rateST =
     (if rateLT \<ge> rateST then
        (LT, rateLT, ''Long-term rate is higher - indicates sustained corrosion'')
      else
        (ST, rateST, ''Short-term rate is higher - indicates accelerated recent corrosion''))"

text \<open>Line 349: the remaining life, on the governing rate before it is rounded to four decimals.\<close>

definition componentRemainingLife :: "(real \<Rightarrow> real) \<Rightarrow> CalculationInput \<Rightarrow> number" where
  "componentRemainingLife fl input =
     (case selectGoverningRate (componentRateLT fl input) (componentRateST fl input) of
        (tag, rate, reason) \<Rightarrow>
          calculateRemainingLife_fl fl
            (actualThickness input) (componentMinimumThickness fl input) rate)"

text \<open>
  \<^verbatim>\<open>performComponentCalculations\<close>, with the current calendar year as an argument
  (the source reads the clock).
\<close>

definition performComponentCalculations ::
  "(real \<Rightarrow> real) \<Rightarrow> number \<Rightarrow> CalculationInput \<Rightarrow> CalculationResult" where
  "performComponentCalculations fl currentYear input =
     (let minT = componentMinimumThickness fl input;
          mawp = componentMAWP fl input;
          rateST = componentRateST fl input;
          rateLT = componentRateLT fl input;
          life = componentRemainingLife fl input;
          years = calculateNextInspectionInterval_fl fl life;
          below = (actualThickness input < minT)
      in case selectGoverningRate rateLT rateST of
           (tag, rate, reason) \<Rightarrow>
             \<lparr> minimumThickness = rd fl (math_round (rd fl (minT * Fin 1000)) / Fin 1000),
               calculatedMAWP = rd fl (math_round (rd fl (mawp * Fin 10)) / Fin 10),
               corrosionRate = rd fl (math_round (rd fl (rate * Fin 10000)) / Fin 10000),
               corrosionRateLT = rd fl (math_round (rd fl (rateLT * Fin 10000)) / Fin 10000),
               corrosionRateST = rd fl (math_round (rd fl (rateST * Fin 10000)) / Fin 10000),
               governingRate = tag,
               governingRateReason = reason,
               remainingLife = rd fl (math_round (rd fl (life * Fin 10)) / Fin 10),
               nextInspectionYears = rd fl (math_round (rd fl (years * Fin 10)) / Fin 10),
               nextInspectionDate = rd fl (currentYear + math_floor years),
               isBelowMinimum = below,
               statusMessage =
                 (if below then ''UNSAFE - BELOW MINIMUM THICKNESS''
                  else if life < Fin 2 then ''CRITICAL - Less than 2 years remaining life''
                  else if life < Fin 5 then ''WARNING - Less than 5 years remaining life''
                  else ''ACCEPTABLE'') \<rparr>)"

subsection \<open>Finite inputs\<close>

text \<open>
  A finite number, and a calculation input whose thicknesses and spans, where given, are
  finite numbers.
\<close>

definition isFinite :: "number \<Rightarrow> bool" where
  "isFinite a = (case a of Fin x \<Rightarrow> True | _ \<Rightarrow> False)"

definition isFiniteOpt :: "number option \<Rightarrow> bool" where
  "isFiniteOpt x = (case x of None \<Rightarrow> True | Some a \<Rightarrow> isFinite a)"

definition finiteThicknessHistory :: "CalculationInput \<Rightarrow> bool" where
  "finiteThicknessHistory input =
     (isFinite (actualThickness input) \<and> isFiniteOpt (previousThickness input)
      \<and> isFiniteOpt (nominalThickness input) \<and> isFiniteOpt (initialThickness input)
      \<and> isFiniteOpt (timeSpan input) \<and> isFiniteOpt (totalTimeSpan input))"

section \<open>The aggregation pipeline (server/routers.ts, calculationRouter.recalculate)\<close>

text \<open>
  The rows the pipeline reads, with the columns it uses. A \<^verbatim>\<open>varchar\<close> column is an
  optional string and an \<^verbatim>\<open>int\<close> column an optional number (\<open>None\<close> is SQL
  \<^verbatim>\<open>NULL\<close>); a \<^verbatim>\<open>timestamp\<close> is its time in milliseconds.
\<close>

record TmlReading =
  r_componentType :: "string option"
  r_tml1 :: "string option"
  r_tml2 :: "string option"
  r_tml3 :: "string option"
  r_tml4 :: "string option"
  r_nominalThickness :: "string option"
  r_previousThickness :: "string option"
  r_actualThickness :: "string option"

record Inspection =
  i_designPressure :: "number option"
  i_designTemperature :: "number option"
  i_insideDiameter :: "string option"
  i_allowableStress :: "number option"
  i_jointEfficiency :: "string option"
  i_nominalThickness :: "string option"
  i_headType :: "string option"
  i_inspectionDate :: "number option"
  i_previousInspectionDate :: "number option"

text \<open>
  What a run can throw: the two errors of lines 262 and 265, and the \<^verbatim>\<open>TypeError\<close> of
  line 287.
\<close>

datatype error = InspectionNotFound | ReportNotFound | TypeError

text \<open>\<^verbatim>\<open>s || d\<close> on an optional string: \<^verbatim>\<open>null\<close> and the empty string are falsy.\<close>

definition or_str :: "string option \<Rightarrow> string \<Rightarrow> string" where
  "or_str x d = (case x of None \<Rightarrow> d | Some s \<Rightarrow> if s = [] then d else s)"

text \<open>\<^verbatim>\<open>s.includes(sub)\<close>.\<close>

definition str_includes :: "string \<Rightarrow> string \<Rightarrow> bool" where
  "str_includes s sub = list_ex (\<lambda>i. take (length sub) (drop i s) = sub) [0 ..< Suc (length s)]"

definition calculateTimeSpanYears :: "(real \<Rightarrow> real) \<Rightarrow> number \<Rightarrow> number \<Rightarrow> number" where
  "calculateTimeSpanYears fl startDate endDate =
     (let msPerYear =
            rd fl (rd fl (rd fl (rd fl (Fin 365.25 * Fin 24) * Fin 60) * Fin 60) * Fin 1000)
      in rd fl (rd fl (endDate - startDate) / msPerYear))"

text \<open>Lines 274-280: the span between the two inspection dates, 10 years without them.\<close>

definition inspectionTimeSpan :: "(real \<Rightarrow> real) \<Rightarrow> Inspection \<Rightarrow> number" where
  "inspectionTimeSpan fl inspection =
     (case (i_inspectionDate inspection, i_previousInspectionDate inspection) of
        (Some d, Some p) \<Rightarrow> calculateTimeSpanYears fl p d
      | _ \<Rightarrow> Fin 10)"

text \<open>
  Lines 283-288: the readings grouped by component type in a plain object; a reading with
  no component type counts as a shell reading. A plain object inherits the properties of
  \<^verbatim>\<open>Object.prototype\<close>: under one of their names \<^verbatim>\<open>componentGroups[type]\<close> is
  truthy and no array, no group is created, and \<^verbatim>\<open>componentGroups[type].push\<close> throws
  a \<^verbatim>\<open>TypeError\<close>. The loop stops there; the calculations stored for the report were
  deleted before (line 268).
\<close>

definition objectPrototypeNames :: "string list" where
  "objectPrototypeNames =
     [''constructor'', ''__defineGetter__'', ''__defineSetter__'', ''hasOwnProperty'',
      ''__lookupGetter__'', ''__lookupSetter__'', ''isPrototypeOf'', ''propertyIsEnumerable'',
      ''toString'', ''valueOf'', ''__proto__'', ''toLocaleString'']"

fun groupReadings ::
  "TmlReading list \<Rightarrow> (string \<rightharpoonup> TmlReading list) \<Rightarrow> error + (string \<rightharpoonup> TmlReading list)" where
  "groupReadings [] componentGroups = Inr componentGroups"
| "groupReadings (reading # rest) componentGroups =
     (let type' = or_str (r_componentType reading) ''shell''
      in if type' \<in> set objectPrototypeNames then Inl TypeError
         else groupReadings rest
                (componentGroups(type' \<mapsto>
                   (case componentGroups type' of None \<Rightarrow> [] | Some rs \<Rightarrow> rs) @ [reading])))"

text \<open>Line 295: \<^verbatim>\<open>componentGroups[componentType] || []\<close>, for one of the three names of line 291.\<close>

definition groupOf :: "(string \<rightharpoonup> TmlReading list) \<Rightarrow> string \<Rightarrow> TmlReading list" where
  "groupOf componentGroups componentType' =
     (case componentGroups componentType' of None \<Rightarrow> [] | Some rs \<Rightarrow> rs)"

text \<open>
  Lines 297-315: the worst-case actual and previous thickness of a group.
  \<^verbatim>\<open>parseFloat\<close> is JavaScript's, an argument of the model.
\<close>

definition readingThicknesses :: "(string \<Rightarrow> number) \<Rightarrow> TmlReading list \<Rightarrow> number list" where
  "readingThicknesses parseFloat readings =
     filter (\<lambda>t. t > Fin 0)
       (map (\<lambda>r. parseFloat (or_str (r_actualThickness r) (or_str (r_tml1 r) ''0''))) readings)"

definition readingPrevThicknesses :: "(string \<Rightarrow> number) \<Rightarrow> TmlReading list \<Rightarrow> number list" where
  "readingPrevThicknesses parseFloat readings =
     filter (\<lambda>t. t > Fin 0)
       (map (\<lambda>r. parseFloat (or_str (r_previousThickness r) ''0'')) readings)"

definition worstCaseThickness ::
  "(string \<Rightarrow> number) \<Rightarrow> Inspection \<Rightarrow> TmlReading list \<Rightarrow> number \<times> number" where
  "worstCaseThickness parseFloat inspection readings =
     (let nominal = parseFloat (or_str (i_nominalThickness inspection) ''0.5'');
          thicknesses = readingThicknesses parseFloat readings;
          prevThicknesses = readingPrevThicknesses parseFloat readings
      in if length readings > 0 then
           (if length thicknesses > 0 then math_min thicknesses else nominal,
            if length prevThicknesses > 0 then math_min prevThicknesses else nominal)
         else (nominal, nominal))"

text \<open>Lines 317-330: the calculation input of one component from its readings, and its result.\<close>

definition componentInput ::
  "(real \<Rightarrow> real) \<Rightarrow> (string \<Rightarrow> number) \<Rightarrow> Inspection \<Rightarrow> TmlReading list \<Rightarrow> string
     \<Rightarrow> CalculationInput" where
  "componentInput fl parseFloat inspection readings componentType' =
     (case worstCaseThickness parseFloat inspection readings of
        (actual, previous) \<Rightarrow>
          \<lparr> designPressure = or_else (i_designPressure inspection) (Fin 250),
            designTemperature = or_else (i_designTemperature inspection) (Fin 200),
            insideDiameter = parseFloat (or_str (i_insideDiameter inspection) ''72''),
            allowableStress = or_else (i_allowableStress inspection) (Fin 20000),
            jointEfficiency = parseFloat (or_str (i_jointEfficiency inspection) ''0.85''),
            actualThickness = actual,
            previousThickness = Some previous,
            nominalThickness = Some (parseFloat (or_str (i_nominalThickness inspection) ''0.5'')),
            corrosionAllowance = None,
            timeSpan = Some (inspectionTimeSpan fl inspection),
            initialThickness = None,
            totalTimeSpan = None,
            componentType = Some (if str_includes componentType' ''head'' then ''head'' else ''shell''),
            headType = Some (or_str (i_headType inspection) ''ellipsoidal'') \<rparr>)"

definition recalculateComponent ::
  "(real \<Rightarrow> real) \<Rightarrow> (string \<Rightarrow> number) \<Rightarrow> number \<Rightarrow> Inspection \<Rightarrow> TmlReading list \<Rightarrow> string
     \<Rightarrow> CalculationResult" where
  "recalculateComponent fl parseFloat currentYear inspection readings componentType' =
     performComponentCalculations fl currentYear
       (componentInput fl parseFloat inspection readings componentType')"

text \<open>
  Lines 258-378: a run. The inspection and its report are \<open>None\<close> when the database
  has none. The result is the calculation of each of the three components, in order, and
  the names of the components in a critical condition (the content of the one
  notification, sent when there is any).
\<close>

definition components :: "string list" where
  "components = [''shell'', ''east_head'', ''west_head'']"

definition recalculate ::
  "(real \<Rightarrow> real) \<Rightarrow> (string \<Rightarrow> number) \<Rightarrow> number \<Rightarrow> Inspection option \<Rightarrow> unit option
     \<Rightarrow> TmlReading list \<Rightarrow> error + (CalculationResult list \<times> string list)" where
  "recalculate fl parseFloat currentYear inspection' report tmlReadings =
     (case inspection' of
        None \<Rightarrow> Inl InspectionNotFound
      | Some inspection \<Rightarrow>
          (case report of
             None \<Rightarrow> Inl ReportNotFound
           | Some _ \<Rightarrow>
               (case groupReadings tmlReadings Map.empty of
                  Inl e \<Rightarrow> Inl e
                | Inr componentGroups \<Rightarrow>
                    (let calc = (\<lambda>c. recalculateComponent fl parseFloat currentYear inspection
                                       (groupOf componentGroups c) c);
                         criticalComponents =
                           filter (\<lambda>c. isBelowMinimum (calc c) \<or> remainingLife (calc c) < Fin 2)
                             components
                     in Inr (map calc components, criticalComponents)))))"

subsection \<open>The reduction in the words of the specification\<close>

text \<open>
  The worst-case actual thickness as the specification has it: the minimum across all the
  angular sub-readings (\<^verbatim>\<open>tml1\<close> to \<^verbatim>\<open>tml4\<close>) of the readings.
\<close>

definition angleReadings :: "(string \<Rightarrow> number) \<Rightarrow> TmlReading \<Rightarrow> number list" where
  "angleReadings parseFloat r =
     map parseFloat (concat (map (\<lambda>x. case x of None \<Rightarrow> [] | Some s \<Rightarrow> [s])
       [r_tml1 r, r_tml2 r, r_tml3 r, r_tml4 r]))"

definition claimedWorstCaseActual :: "(string \<Rightarrow> number) \<Rightarrow> TmlReading list \<Rightarrow> number" where
  "claimedWorstCaseActual parseFloat readings = math_min (concat (map (angleReadings parseFloat) readings))"

section \<open>The stress interpolator (getMaterialStressValue)\<close>

text \<open>
  A row of the \<^verbatim>\<open>materialStressValues\<close> table: the material, a temperature and the
  allowable stress at it, both \<^verbatim>\<open>int\<close> columns that are never \<^verbatim>\<open>NULL\<close>. An
  \<^verbatim>\<open>int\<close> column holds 32 bits.
\<close>

record MaterialStressValue =
  ms_materialSpec :: string
  ms_temperature :: int
  ms_allowableStress :: int

definition int32 :: "int \<Rightarrow> bool" where
  "int32 n = (- 2147483648 \<le> n \<and> n < 2147483648)"

definition int32Table :: "MaterialStressValue list \<Rightarrow> bool" where
  "int32Table table =
     list_all (\<lambda>row. int32 (ms_temperature row) \<and> int32 (ms_allowableStress row)) table"

text \<open>
  \<^verbatim>\<open>orderBy(desc(temperature)).limit(1)\<close> and \<^verbatim>\<open>orderBy(asc(temperature)).limit(1)\<close>:
  at most one row, of the greatest (least) temperature. Between rows of one temperature SQL
  leaves the choice open; the model takes the one that a stable sort puts first.
\<close>

definition orderByDescLimit1 :: "MaterialStressValue list \<Rightarrow> MaterialStressValue list" where
  "orderByDescLimit1 rows = take 1 (rev (sort_key ms_temperature rows))"

definition orderByAscLimit1 :: "MaterialStressValue list \<Rightarrow> MaterialStressValue list" where
  "orderByAscLimit1 rows = take 1 (sort_key ms_temperature rows)"

definition lowerResult :: "MaterialStressValue list \<Rightarrow> string \<Rightarrow> real \<Rightarrow> MaterialStressValue list" where
  "lowerResult table materialSpec temperature =
     orderByDescLimit1
       (filter (\<lambda>row. ms_materialSpec row = materialSpec \<and> of_int (ms_temperature row) \<le> temperature) table)"

definition upperResult :: "MaterialStressValue list \<Rightarrow> string \<Rightarrow> real \<Rightarrow> MaterialStressValue list" where
  "upperResult table materialSpec temperature =
     orderByAscLimit1
       (filter (\<lambda>row. ms_materialSpec row = materialSpec \<and> of_int (ms_temperature row) \<ge> temperature) table)"

text \<open>
  The lookup. The database is \<open>None\<close> when it is not available; the target temperature
  is a finite number; \<open>None\<close> as a result is \<^verbatim>\<open>null\<close>. The interpolation is computed
  in doubles, each operation rounded by \<open>fl\<close>, and \<^verbatim>\<open>Math.round\<close> is applied to the
  double that results.
\<close>

definition getMaterialStressValue ::
  "(real \<Rightarrow> real) \<Rightarrow> MaterialStressValue list option \<Rightarrow> string \<Rightarrow> real \<Rightarrow> int option" where
  "getMaterialStressValue fl db materialSpec temperature =
     (case db of
        None \<Rightarrow> None
      | Some table \<Rightarrow>
          (case (lowerResult table materialSpec temperature,
                 upperResult table materialSpec temperature) of
             ([], []) \<Rightarrow> None
           | ([], upper # _) \<Rightarrow> Some (ms_allowableStress upper)
           | (lower # _, []) \<Rightarrow> Some (ms_allowableStress lower)
           | (lower # _, upper # _) \<Rightarrow>
               if ms_temperature lower = ms_temperature upper then Some (ms_allowableStress lower)
               else
                 let t1 = real_of_int (ms_temperature lower);
                     t2 = real_of_int (ms_temperature upper);
                     s1 = real_of_int (ms_allowableStress lower);
                     s2 = real_of_int (ms_allowableStress upper);
                     interpolatedStress =
                       fl (s1 + fl (fl (fl (temperature - t1) / fl (t2 - t1)) * fl (s2 - s1)))
                 in Some \<lfloor>interpolatedStress + 1 / 2\<rfloor>))"

subsection \<open>The lookup in the words of the specification\<close>

text \<open>
  The tabulated points of a material; a lower bound of a target temperature, a point of
  the greatest tabulated temperature that is at most the target; an upper bound, a point of
  the least tabulated temperature that is at least the target; and the linear interpolation
  s1 + (target - t1) / (t2 - t1) (s2 - s1) between two points, as doubles compute it.
\<close>

definition materialPoints :: "MaterialStressValue list \<Rightarrow> string \<Rightarrow> MaterialStressValue list" where
  "materialPoints table materialSpec = filter (\<lambda>row. ms_materialSpec row = materialSpec) table"

definition isLowerBound :: "MaterialStressValue list \<Rightarrow> string \<Rightarrow> real \<Rightarrow> MaterialStressValue \<Rightarrow> bool" where
  "isLowerBound table materialSpec target l =
     (l \<in> set (materialPoints table materialSpec) \<and> of_int (ms_temperature l) \<le> target
      \<and> (\<forall>row \<in> set (materialPoints table materialSpec).
            of_int (ms_temperature row) \<le> target \<longrightarrow> ms_temperature row \<le> ms_temperature l))"

definition isUpperBound :: "MaterialStressValue list \<Rightarrow> string \<Rightarrow> real \<Rightarrow> MaterialStressValue \<Rightarrow> bool" where
  "isUpperBound table materialSpec target u =
     (u \<in> set (materialPoints table materialSpec) \<and> target \<le> of_int (ms_temperature u)
      \<and> (\<forall>row \<in> set (materialPoints table materialSpec).
            target \<le> of_int (ms_temperature row) \<longrightarrow> ms_temperature u \<le> ms_temperature row))"

definition interpolated ::
  "(real \<Rightarrow> real) \<Rightarrow> MaterialStressValue \<Rightarrow> MaterialStressValue \<Rightarrow> real \<Rightarrow> real" where
  "interpolated fl l u target =
     fl (of_int (ms_allowableStress l)
         + fl (fl (fl (target - of_int (ms_temperature l))
                   / fl (of_int (ms_temperature u) - of_int (ms_temperature l)))
               * fl (of_int (ms_allowableStress u) - of_int (ms_allowableStress l))))"

section \<open>Sample data\<close>

text \<open>
  The thicknesses and spans of the samples are binary fractions, so that the source's
  arithmetic on them is exact and the identity is its rounding there.

  A shell (150 psi, 48 in inside diameter, 20000 psi, E = 0.85) measured at 0.375 in after
  0.5 in four years earlier and 0.625 in eight years earlier: both rates are 0.03125 in/yr.
  And a shell whose two inspection dates are exchanged, so that the span is negative, and
  whose thickness was 0.375 in before and is 0.5 in now.
\<close>

definition sampleShellInput :: CalculationInput where
  "sampleShellInput =
     \<lparr> designPressure = Fin 150, designTemperature = Fin 200, insideDiameter = Fin 48,
       allowableStress = Fin 20000, jointEfficiency = Fin 0.85, actualThickness = Fin 0.375,
       previousThickness = Some (Fin 0.5), nominalThickness = Some (Fin 0.625),
       corrosionAllowance = None, timeSpan = Some (Fin 4), initialThickness = Some (Fin 0.625),
       totalTimeSpan = Some (Fin 8), componentType = Some ''shell'', headType = None \<rparr>"

definition negativeSpanInput :: CalculationInput where
  "negativeSpanInput =
     \<lparr> designPressure = Fin 150, designTemperature = Fin 200, insideDiameter = Fin 48,
       allowableStress = Fin 20000, jointEfficiency = Fin 0.85, actualThickness = Fin 0.5,
       previousThickness = Some (Fin 0.375), nominalThickness = Some (Fin 0.625),
       corrosionAllowance = None, timeSpan = Some (Fin (- 4)), initialThickness = None,
       totalTimeSpan = None, componentType = Some ''shell'', headType = None \<rparr>"

text \<open>A stress table with three points of one material and one of another.\<close>

definition sampleStressTable :: "MaterialStressValue list" where
  "sampleStressTable =
     [\<lparr> ms_materialSpec = ''SA-516-70'', ms_temperature = 200, ms_allowableStress = 19000 \<rparr>,
      \<lparr> ms_materialSpec = ''SA-240-304'', ms_temperature = 100, ms_allowableStress = 18800 \<rparr>,
      \<lparr> ms_materialSpec = ''SA-516-70'', ms_temperature = 100, ms_allowableStress = 20000 \<rparr>,
      \<lparr> ms_materialSpec = ''SA-516-70'', ms_temperature = 300, ms_allowableStress = 17500 \<rparr>]"

text \<open>
  A vessel of nominal thickness 0.500 in with one shell reading: four angular sub-readings
  and no stored actual thickness. \<open>sampleParseFloat\<close> gives the values of
  \<^verbatim>\<open>parseFloat\<close> on the strings of these rows (and \<^verbatim>\<open>NaN\<close> on the strings they do
  not use).
\<close>

definition sampleParseFloat :: "string \<Rightarrow> number" where
  "sampleParseFloat s =
     (if s = ''0'' then Fin 0
      else if s = ''0.5'' then Fin 0.5
      else if s = ''0.500'' then Fin 0.5
      else if s = ''0.85'' then Fin 0.85
      else if s = ''48'' then Fin 48
      else if s = ''0.420'' then Fin 0.42
      else if s = ''0.410'' then Fin 0.41
      else if s = ''0.400'' then Fin 0.4
      else if s = ''0.390'' then Fin 0.39
      else if s = ''0.350'' then Fin 0.35
      else NaN)"

definition sampleInspection :: Inspection where
  "sampleInspection =
     \<lparr> i_designPressure = Some (Fin 150), i_designTemperature = Some (Fin 200),
       i_insideDiameter = Some ''48'', i_allowableStress = Some (Fin 20000),
       i_jointEfficiency = Some ''0.85'', i_nominalThickness = Some ''0.500'',
       i_headType = Some ''ellipsoidal'', i_inspectionDate = None,
       i_previousInspectionDate = None \<rparr>"

definition sampleReading :: TmlReading where
  "sampleReading =
     \<lparr> r_componentType = Some ''shell'', r_tml1 = Some ''0.400'', r_tml2 = Some ''0.350'',
       r_tml3 = Some ''0.410'', r_tml4 = Some ''0.390'', r_nominalThickness = Some ''0.500'',
       r_previousThickness = Some ''0.420'', r_actualThickness = None \<rparr>"

definition constructorReading :: TmlReading where
  "constructorReading =
     \<lparr> r_componentType = Some ''constructor'', r_tml1 = Some ''0.400'', r_tml2 = None,
       r_tml3 = None, r_tml4 = None, r_nominalThickness = None,
       r_previousThickness = None, r_actualThickness = Some ''0.400'' \<rparr>"

section \<open>Arithmetic on finite numbers, and rounding\<close>

lemma fin_sub [simp]: "Fin x - Fin y = Fin (x - y)"
  by (simp add: minus_number_def)

lemma rd_simps [simp]:
  "rd fl (Fin x) = Fin (fl x)" "rd fl PInf = PInf" "rd fl NInf = NInf" "rd fl NaN = NaN"
  by (simp_all add: rd_def)

lemma rd_identity: "rd (\<lambda>x. x) a = a"
  by (cases a) simp_all

lemma rounding_identity: "rounding (\<lambda>x. x)"
  by (simp add: rounding_def mono_def)

lemma rounding_mono: "rounding fl \<Longrightarrow> x \<le> y \<Longrightarrow> fl x \<le> fl y"
  by (simp add: rounding_def mono_def)

lemma rounding_int: "rounding fl \<Longrightarrow> \<bar>n\<bar> \<le> 2 ^ 53 \<Longrightarrow> fl (of_int n) = of_int n"
  by (simp add: rounding_def)

lemma rounding_zero: "rounding fl \<Longrightarrow> fl 0 = 0"
  using rounding_int [of fl 0] by simp

lemma rounding_one: "rounding fl \<Longrightarrow> fl 1 = 1"
  using rounding_int [of fl 1] by simp

lemma rounding_idem: "rounding fl \<Longrightarrow> fl (fl x) = fl x"
  by (simp add: rounding_def)


lemma rounding_nonneg: "rounding fl \<Longrightarrow> 0 \<le> x \<Longrightarrow> 0 \<le> fl x"
  using rounding_mono [of fl 0 x] rounding_zero [of fl] by simp

lemma rounding_idem_nonpos: "rounding fl \<Longrightarrow> (fl (fl x) \<le> 0) = (fl x \<le> 0)"
  by (simp add: rounding_idem)

section \<open>The corrosion rate analyzer\<close>

lemma floor_branches:
  "(if Fin r < Fin 0 then m else if strict_eq (Fin r) (Fin 0) then m else Fin r)
     = (if r \<le> 0 then m else Fin r)"
  by (cases r "0::real" rule: linorder_cases) (simp_all add: strict_eq_def)

lemma short_term_rate_fin:
  "calculateShortTermCorrosionRate (Fin p) (Fin a) (Fin t) =
     (if t \<le> 0 \<or> (p - a) / t \<le> 0 then Fin 0.001 else Fin ((p - a) / t))"
proof (cases "t \<le> 0")
  case True
  then show ?thesis
    by (simp add: calculateShortTermCorrosionRate_def MIN_NOMINAL_RATE_def)
next
  case False
  define r where "r = (p - a) / t"
  have step: "(Fin p - Fin a) / Fin t = Fin r"
    using False by (simp add: r_def)
  have "calculateShortTermCorrosionRate (Fin p) (Fin a) (Fin t) =
          (if t \<le> 0 \<or> r \<le> 0 then Fin 0.001 else Fin r)"
    unfolding calculateShortTermCorrosionRate_def Let_def step floor_branches
    using False by (simp add: MIN_NOMINAL_RATE_def)
  then show ?thesis unfolding r_def .
qed

lemma long_term_rate_fin:
  "calculateLongTermCorrosionRate (Fin i) (Fin a) (Fin T) =
     (if T \<le> 0 \<or> (i - a) / T \<le> 0 then Fin 0.001 else Fin ((i - a) / T))"
proof (cases "T \<le> 0")
  case True
  then show ?thesis
    by (simp add: calculateLongTermCorrosionRate_def MIN_NOMINAL_RATE_def)
next
  case False
  define r where "r = (i - a) / T"
  have step: "(Fin i - Fin a) / Fin T = Fin r"
    using False by (simp add: r_def)
  have "calculateLongTermCorrosionRate (Fin i) (Fin a) (Fin T) =
          (if T \<le> 0 \<or> r \<le> 0 then Fin 0.001 else Fin r)"
    unfolding calculateLongTermCorrosionRate_def Let_def step floor_branches
    using False by (simp add: MIN_NOMINAL_RATE_def)
  then show ?thesis unfolding r_def .
qed

lemma floored_rate_pos: "Fin 0 < (if c \<or> r \<le> 0 then Fin 0.001 else Fin r)"
  by (cases "r \<le> 0") auto

text \<open>
  Claim C1, as the code has it. On finite inputs each of the two rate functions returns
  exactly 0.001 when the span is at most 0 or the raw rate (the thickness lost over the
  span) is at most 0, and the raw rate itself otherwise. The result is therefore always
  strictly positive; it is not bounded below by 0.001, since a positive raw rate is
  returned as it is, however small.
\<close>

theorem corrosion_rate_floor:
  "calculateShortTermCorrosionRate (Fin p) (Fin a) (Fin t) =
     (if t \<le> 0 \<or> (p - a) / t \<le> 0 then Fin 0.001 else Fin ((p - a) / t))
   \<and> calculateLongTermCorrosionRate (Fin i) (Fin a) (Fin T) =
     (if T \<le> 0 \<or> (i - a) / T \<le> 0 then Fin 0.001 else Fin ((i - a) / T))
   \<and> Fin 0 < calculateShortTermCorrosionRate (Fin p) (Fin a) (Fin t)
   \<and> Fin 0 < calculateLongTermCorrosionRate (Fin i) (Fin a) (Fin T)"
  unfolding short_term_rate_fin long_term_rate_fin
  using floored_rate_pos by blast

text \<open>
  The claim as stated fails: a loss of 0.0001 in over 5 years is a rate of 0.00002 in/yr,
  returned unchanged and below 0.001.
\<close>

theorem corrosion_rate_below_floor:
  "calculateShortTermCorrosionRate (Fin 0.4) (Fin 0.3999) (Fin 5) = Fin 0.00002
   \<and> \<not> (Fin 0.001 \<le> calculateShortTermCorrosionRate (Fin 0.4) (Fin 0.3999) (Fin 5))
   \<and> calculateLongTermCorrosionRate (Fin 0.4) (Fin 0.3999) (Fin 5) = Fin 0.00002
   \<and> \<not> (Fin 0.001 \<le> calculateLongTermCorrosionRate (Fin 0.4) (Fin 0.3999) (Fin 5))"
  by (simp add: calculateShortTermCorrosionRate_def calculateLongTermCorrosionRate_def
      MIN_NOMINAL_RATE_def strict_eq_def Let_def)

section \<open>The life predictor\<close>

text \<open>
  Claim C2, as the code has it. On finite inputs a rate of at most 0 gives 999 whatever
  the margin is (the rate is tested first); with a positive rate, an actual thickness at
  or below the minimum gives 0; otherwise the result is the margin over the rate. An
  infinite minimum thickness counts as a thickness below the minimum.
\<close>

theorem remaining_life_cases:
  "calculateRemainingLife (Fin a) (Fin m) (Fin r) =
     (if r \<le> 0 then Fin 999 else if a \<le> m then Fin 0 else Fin ((a - m) / r))
   \<and> calculateRemainingLife (Fin a) PInf (Fin r) = (if r \<le> 0 then Fin 999 else Fin 0)"
  by (simp add: calculateRemainingLife_def Let_def minus_number_def)

text \<open>
  The claim as stated fails where the thickness is below the minimum and the rate is 0:
  the result is 999, not 0.
\<close>

theorem remaining_life_rate_first:
  "calculateRemainingLife (Fin 0.1) (Fin 0.2) (Fin 0) = Fin 999
   \<and> calculateRemainingLife (Fin 0.1) (Fin 0.2) (Fin 0) \<noteq> Fin 0"
  by (simp add: calculateRemainingLife_def Let_def)

section \<open>The formula library\<close>




subsection \<open>Closed forms on finite arguments\<close>



subsection \<open>Monotonicity of the shell minimum thickness\<close>




subsection \<open>Hemispherical head against shell\<close>




section \<open>The engine with rounded arithmetic\<close>

subsection \<open>The exact functions are the rounded ones without rounding\<close>

lemma exact_is_unrounded:
  "calculateShellMinimumThickness_fl (\<lambda>x. x) P R S E = calculateShellMinimumThickness P R S E"
  "calculateHemisphericalHeadMinimumThickness_fl (\<lambda>x. x) P R S E
     = calculateHemisphericalHeadMinimumThickness P R S E"
  "calculateShellMAWP_fl (\<lambda>x. x) t R S E = calculateShellMAWP t R S E"
  "calculateShortTermCorrosionRate_fl (\<lambda>x. x) p a ts = calculateShortTermCorrosionRate p a ts"
  "calculateLongTermCorrosionRate_fl (\<lambda>x. x) i a ts = calculateLongTermCorrosionRate i a ts"
  "calculateRemainingLife_fl (\<lambda>x. x) a m r = calculateRemainingLife a m r"
  by (simp_all add: calculateShellMinimumThickness_fl_def calculateShellMinimumThickness_def
      calculateHemisphericalHeadMinimumThickness_fl_def calculateHemisphericalHeadMinimumThickness_def
      calculateShellMAWP_fl_def calculateShellMAWP_def
      calculateShortTermCorrosionRate_fl_def calculateShortTermCorrosionRate_def
      calculateLongTermCorrosionRate_fl_def calculateLongTermCorrosionRate_def
      calculateRemainingLife_fl_def calculateRemainingLife_def
      MIN_NOMINAL_RATE_fl_def MIN_NOMINAL_RATE_def rd_identity Let_def)

subsection \<open>Closed forms on finite arguments, with rounding\<close>














subsection \<open>Degenerate results\<close>



section \<open>The main calculation\<close>

subsection \<open>Governing rate\<close>

lemma select_fin_rate:
  "selectGoverningRate (Fin lt) (Fin st) =
     (if st \<le> lt then LT else ST, Fin (max lt st),
      if st \<le> lt then ''Long-term rate is higher - indicates sustained corrosion''
      else ''Short-term rate is higher - indicates accelerated recent corrosion'')"
  by (simp add: selectGoverningRate_def max_def)

lemma short_term_rate_fl_fin:
  "calculateShortTermCorrosionRate_fl fl (Fin p) (Fin a) (Fin t) =
     (if t \<le> 0 \<or> fl (fl (p - a) / t) \<le> 0 then Fin (fl 0.001) else Fin (fl (fl (p - a) / t)))"
proof (cases "t \<le> 0")
  case True
  then show ?thesis
    by (simp add: calculateShortTermCorrosionRate_fl_def MIN_NOMINAL_RATE_fl_def)
next
  case False
  have step: "rd fl (rd fl (Fin p - Fin a) / Fin t) = Fin (fl (fl (p - a) / t))"
    using False by simp
  show ?thesis
    unfolding calculateShortTermCorrosionRate_fl_def Let_def step floor_branches
    using False by (simp add: MIN_NOMINAL_RATE_fl_def)
qed

lemma long_term_rate_fl_fin:
  "calculateLongTermCorrosionRate_fl fl (Fin i) (Fin a) (Fin T) =
     (if T \<le> 0 \<or> fl (fl (i - a) / T) \<le> 0 then Fin (fl 0.001) else Fin (fl (fl (i - a) / T)))"
proof (cases "T \<le> 0")
  case True
  then show ?thesis
    by (simp add: calculateLongTermCorrosionRate_fl_def MIN_NOMINAL_RATE_fl_def)
next
  case False
  have step: "rd fl (rd fl (Fin i - Fin a) / Fin T) = Fin (fl (fl (i - a) / T))"
    using False by simp
  show ?thesis
    unfolding calculateLongTermCorrosionRate_fl_def Let_def step floor_branches
    using False by (simp add: MIN_NOMINAL_RATE_fl_def)
qed

lemma isFinite_iff: "isFinite a = (\<exists>x. a = Fin x)"
  by (cases a) (simp_all add: isFinite_def)

lemma or_else_finite: "isFiniteOpt x \<Longrightarrow> isFinite d \<Longrightarrow> isFinite (or_else x d)"
  by (auto simp add: isFiniteOpt_def or_else_def split: option.splits)

lemma short_term_rate_finite:
  "isFinite p \<Longrightarrow> isFinite a \<Longrightarrow> isFinite t \<Longrightarrow> isFinite (calculateShortTermCorrosionRate_fl fl p a t)"
  unfolding isFinite_iff using short_term_rate_fl_fin by (metis (no_types))

lemma long_term_rate_finite:
  "isFinite i \<Longrightarrow> isFinite a \<Longrightarrow> isFinite t \<Longrightarrow> isFinite (calculateLongTermCorrosionRate_fl fl i a t)"
  unfolding isFinite_iff using long_term_rate_fl_fin by (metis (no_types))

lemma component_rates_finite:
  assumes "finiteThicknessHistory input"
  shows "isFinite (componentRateLT fl input) \<and> isFinite (componentRateST fl input)"
proof -
  have a: "isFinite (actualThickness input)"
    using assms by (simp add: finiteThicknessHistory_def)
  have ten: "isFinite (Fin 10)" by (simp add: isFinite_def)
  have ts: "isFinite (resolvedTimeSpan input)"
    unfolding resolvedTimeSpan_def
    using assms ten by (intro or_else_finite) (simp_all add: finiteThicknessHistory_def)
  have tts: "isFinite (resolvedTotalTimeSpan input)"
    unfolding resolvedTotalTimeSpan_def
    using assms ts by (intro or_else_finite) (simp_all add: finiteThicknessHistory_def)
  have pt: "isFinite (resolvedPreviousThickness input)"
    unfolding resolvedPreviousThickness_def
    using assms a by (intro or_else_finite) (simp_all add: finiteThicknessHistory_def)
  have it: "isFinite (resolvedInitialThickness input)"
    unfolding resolvedInitialThickness_def
    using assms pt by (intro or_else_finite) (simp_all add: finiteThicknessHistory_def)
  show ?thesis
    unfolding componentRateLT_def componentRateST_def
    using a ts tts pt it by (simp add: short_term_rate_finite long_term_rate_finite)
qed

text \<open>
  Claim C8. For every rounding of the arithmetic and every pair of computed rates that are
  finite numbers (they are for every input whose thicknesses and spans are finite), the
  rate that \<^verbatim>\<open>performComponentCalculations\<close> passes to the remaining-life calculation is
  the greater of the long-term and the short-term rate; the tag is LT when the long-term
  rate is at least the short-term rate and ST otherwise, so LT on a tie, and the tag names
  the rate selected. The rate reported is that maximum, rounded to four decimals as the
  source does it, and the remaining life reported is the one computed on it.
\<close>

theorem governing_rate_is_max:
  assumes "componentRateLT fl input = Fin lt" and "componentRateST fl input = Fin st"
  shows "componentRemainingLife fl input =
           calculateRemainingLife_fl fl (actualThickness input) (componentMinimumThickness fl input)
             (Fin (max lt st))
         \<and> governingRate (performComponentCalculations fl y input) = (if lt \<ge> st then LT else ST)
         \<and> (lt = st \<longrightarrow> governingRate (performComponentCalculations fl y input) = LT)
         \<and> (governingRate (performComponentCalculations fl y input) = LT \<longrightarrow> max lt st = lt)
         \<and> (governingRate (performComponentCalculations fl y input) = ST \<longrightarrow> max lt st = st)
         \<and> corrosionRate (performComponentCalculations fl y input) =
             rd fl (math_round (rd fl (Fin (max lt st) * Fin 10000)) / Fin 10000)
         \<and> remainingLife (performComponentCalculations fl y input) =
             rd fl (math_round (rd fl (componentRemainingLife fl input * Fin 10)) / Fin 10)"
proof -
  have sel: "selectGoverningRate (componentRateLT fl input) (componentRateST fl input) =
     (if st \<le> lt then LT else ST, Fin (max lt st),
      if st \<le> lt then ''Long-term rate is higher - indicates sustained corrosion''
      else ''Short-term rate is higher - indicates accelerated recent corrosion'')"
    by (simp only: assms select_fin_rate)
  have life: "componentRemainingLife fl input =
           calculateRemainingLife_fl fl (actualThickness input) (componentMinimumThickness fl input)
             (Fin (max lt st))"
    unfolding componentRemainingLife_def sel by simp
  have rate: "corrosionRate (performComponentCalculations fl y input) =
             rd fl (math_round (rd fl (Fin (max lt st) * Fin 10000)) / Fin 10000)"
    unfolding performComponentCalculations_def Let_def sel by simp
  have tag: "governingRate (performComponentCalculations fl y input) = (if lt \<ge> st then LT else ST)"
    unfolding performComponentCalculations_def Let_def sel by simp
  have rl: "remainingLife (performComponentCalculations fl y input) =
             rd fl (math_round (rd fl (componentRemainingLife fl input * Fin 10)) / Fin 10)"
    unfolding performComponentCalculations_def Let_def sel by simp
  show ?thesis
    unfolding rate tag rl life [symmetric] by (simp add: max_def)
qed

lemma sample_rates:
  "componentRateLT (\<lambda>x. x) sampleShellInput = Fin 0.03125"
  "componentRateST (\<lambda>x. x) sampleShellInput = Fin 0.03125"
  by (simp_all add: componentRateLT_def componentRateST_def sampleShellInput_def
      resolvedInitialThickness_def resolvedPreviousThickness_def resolvedTimeSpan_def
      resolvedTotalTimeSpan_def or_else_def truthy_def
      short_term_rate_fl_fin long_term_rate_fl_fin)

theorem governing_rate_is_max_witness:
  "componentRateLT (\<lambda>x. x) sampleShellInput = Fin 0.03125
   \<and> componentRateST (\<lambda>x. x) sampleShellInput = Fin 0.03125
   \<and> governingRate (performComponentCalculations (\<lambda>x. x) (Fin 2026) sampleShellInput) = LT
   \<and> corrosionRate (performComponentCalculations (\<lambda>x. x) (Fin 2026) sampleShellInput) = Fin 0.0313
   \<and> componentRemainingLife (\<lambda>x. x) sampleShellInput =
        calculateRemainingLife_fl (\<lambda>x. x) (Fin 0.375)
          (componentMinimumThickness (\<lambda>x. x) sampleShellInput) (Fin 0.03125)"
proof -
  have a: "actualThickness sampleShellInput = Fin 0.375"
    by (simp add: sampleShellInput_def)
  show ?thesis
    using governing_rate_is_max [OF sample_rates, of "Fin 2026"] sample_rates a by simp
qed

subsection \<open>Defaults of the optional inputs\<close>

lemmas resolved_defs =
  resolvedTimeSpan_def resolvedTotalTimeSpan_def resolvedPreviousThickness_def
  resolvedInitialThickness_def

lemma perform_cong:
  assumes "designPressure a = designPressure b" and "insideDiameter a = insideDiameter b"
    and "allowableStress a = allowableStress b" and "jointEfficiency a = jointEfficiency b"
    and "actualThickness a = actualThickness b" and "componentType a = componentType b"
    and "headType a = headType b"
    and "resolvedTimeSpan a = resolvedTimeSpan b"
    and "resolvedTotalTimeSpan a = resolvedTotalTimeSpan b"
    and "resolvedPreviousThickness a = resolvedPreviousThickness b"
    and "resolvedInitialThickness a = resolvedInitialThickness b"
  shows "performComponentCalculations fl y a = performComponentCalculations fl y b"
proof -
  have m: "componentMinimumThickness fl a = componentMinimumThickness fl b"
    by (simp add: componentMinimumThickness_def Let_def assms)
  have w: "componentMAWP fl a = componentMAWP fl b"
    by (simp add: componentMAWP_def Let_def assms)
  have s: "componentRateST fl a = componentRateST fl b"
    by (simp add: componentRateST_def assms)
  have l: "componentRateLT fl a = componentRateLT fl b"
    by (simp add: componentRateLT_def assms)
  have r: "componentRemainingLife fl a = componentRemainingLife fl b"
    by (simp add: componentRemainingLife_def m s l assms)
  show ?thesis
    by (simp add: performComponentCalculations_def Let_def m w s l r assms)
qed

lemma reported_rates:
  "corrosionRateST (performComponentCalculations fl y input) =
     rd fl (math_round (rd fl (componentRateST fl input * Fin 10000)) / Fin 10000)"
  "corrosionRateLT (performComponentCalculations fl y input) =
     rd fl (math_round (rd fl (componentRateLT fl input * Fin 10000)) / Fin 10000)"
  by (simp_all add: performComponentCalculations_def Let_def split: prod.splits)

text \<open>
  Claim C10, amended. \<^verbatim>\<open>performComponentCalculations\<close> treats a zero in an optional
  numeric input as absent: its result for a time span, total time span, previous thickness
  or initial thickness of 0 is its result without that field. The rates it reports are
  those of the two rate functions on the resolved values: a time span of 0 becomes 10, a
  total time span of 0 becomes the resolved short-term span, a previous thickness of 0
  falls back to the nominal thickness and then to the actual thickness, an initial
  thickness of 0 to the nominal thickness and then to the resolved previous thickness.
  Consequently the spans handed to the rate functions are never 0, and their test for a
  span of at most 0 fails whenever the spans supplied are absent or non-negative. Every
  negative span is handed on as it is: the test succeeds and the rate is the nominal
  minimum.
\<close>

theorem zero_inputs_are_absent:
  "performComponentCalculations fl y (input\<lparr>timeSpan := Some (Fin 0)\<rparr>)
     = performComponentCalculations fl y (input\<lparr>timeSpan := None\<rparr>)
   \<and> performComponentCalculations fl y (input\<lparr>totalTimeSpan := Some (Fin 0)\<rparr>)
     = performComponentCalculations fl y (input\<lparr>totalTimeSpan := None\<rparr>)
   \<and> performComponentCalculations fl y (input\<lparr>previousThickness := Some (Fin 0)\<rparr>)
     = performComponentCalculations fl y (input\<lparr>previousThickness := None\<rparr>)
   \<and> performComponentCalculations fl y (input\<lparr>initialThickness := Some (Fin 0)\<rparr>)
     = performComponentCalculations fl y (input\<lparr>initialThickness := None\<rparr>)
   \<and> corrosionRateST (performComponentCalculations fl y input) =
        rd fl (math_round (rd fl (calculateShortTermCorrosionRate_fl fl
          (resolvedPreviousThickness input) (actualThickness input) (resolvedTimeSpan input)
          * Fin 10000)) / Fin 10000)
   \<and> corrosionRateLT (performComponentCalculations fl y input) =
        rd fl (math_round (rd fl (calculateLongTermCorrosionRate_fl fl
          (resolvedInitialThickness input) (actualThickness input) (resolvedTotalTimeSpan input)
          * Fin 10000)) / Fin 10000)
   \<and> resolvedTimeSpan (input\<lparr>timeSpan := Some (Fin 0)\<rparr>) = Fin 10
   \<and> resolvedTotalTimeSpan (input\<lparr>totalTimeSpan := Some (Fin 0)\<rparr>) = resolvedTimeSpan input
   \<and> resolvedPreviousThickness (input\<lparr>previousThickness := Some (Fin 0)\<rparr>) =
        or_else (nominalThickness input) (actualThickness input)
   \<and> resolvedPreviousThickness (input\<lparr>previousThickness := Some (Fin 0), nominalThickness := Some (Fin 0)\<rparr>) =
        actualThickness input
   \<and> resolvedInitialThickness (input\<lparr>initialThickness := Some (Fin 0)\<rparr>) =
        or_else (nominalThickness input) (resolvedPreviousThickness input)
   \<and> resolvedInitialThickness (input\<lparr>initialThickness := Some (Fin 0), nominalThickness := Some (Fin 0)\<rparr>) =
        resolvedPreviousThickness (input\<lparr>nominalThickness := Some (Fin 0)\<rparr>)
   \<and> resolvedTimeSpan input \<noteq> Fin 0
   \<and> resolvedTotalTimeSpan input \<noteq> Fin 0
   \<and> ((timeSpan input = None \<or> (\<exists>t. 0 \<le> t \<and> timeSpan input = Some (Fin t)))
        \<longrightarrow> \<not> resolvedTimeSpan input \<le> Fin 0)
   \<and> ((timeSpan input = None \<or> (\<exists>t. 0 \<le> t \<and> timeSpan input = Some (Fin t)))
        \<and> (totalTimeSpan input = None \<or> (\<exists>t. 0 \<le> t \<and> totalTimeSpan input = Some (Fin t)))
        \<longrightarrow> \<not> resolvedTotalTimeSpan input \<le> Fin 0)
   \<and> (\<forall>t < 0. timeSpan input = Some (Fin t) \<longrightarrow>
         resolvedTimeSpan input = Fin t \<and> resolvedTimeSpan input \<le> Fin 0
         \<and> componentRateST fl input = MIN_NOMINAL_RATE_fl fl
         \<and> corrosionRateST (performComponentCalculations fl y input) =
             rd fl (math_round (rd fl (MIN_NOMINAL_RATE_fl fl * Fin 10000)) / Fin 10000))
   \<and> (\<forall>t < 0. totalTimeSpan input = Some (Fin t) \<longrightarrow>
         resolvedTotalTimeSpan input = Fin t \<and> resolvedTotalTimeSpan input \<le> Fin 0
         \<and> componentRateLT fl input = MIN_NOMINAL_RATE_fl fl
         \<and> corrosionRateLT (performComponentCalculations fl y input) =
             rd fl (math_round (rd fl (MIN_NOMINAL_RATE_fl fl * Fin 10000)) / Fin 10000))"
proof -
  have p1: "performComponentCalculations fl y (input\<lparr>timeSpan := Some (Fin 0)\<rparr>)
     = performComponentCalculations fl y (input\<lparr>timeSpan := None\<rparr>)"
    by (rule perform_cong) (simp_all add: resolved_defs or_else_def truthy_def)
  have p2: "performComponentCalculations fl y (input\<lparr>totalTimeSpan := Some (Fin 0)\<rparr>)
     = performComponentCalculations fl y (input\<lparr>totalTimeSpan := None\<rparr>)"
    by (rule perform_cong) (simp_all add: resolved_defs or_else_def truthy_def)
  have p3: "performComponentCalculations fl y (input\<lparr>previousThickness := Some (Fin 0)\<rparr>)
     = performComponentCalculations fl y (input\<lparr>previousThickness := None\<rparr>)"
    by (rule perform_cong) (simp_all add: resolved_defs or_else_def truthy_def)
  have p4: "performComponentCalculations fl y (input\<lparr>initialThickness := Some (Fin 0)\<rparr>)
     = performComponentCalculations fl y (input\<lparr>initialThickness := None\<rparr>)"
    by (rule perform_cong) (simp_all add: resolved_defs or_else_def truthy_def)
  have r1: "corrosionRateST (performComponentCalculations fl y input) =
        rd fl (math_round (rd fl (calculateShortTermCorrosionRate_fl fl
          (resolvedPreviousThickness input) (actualThickness input) (resolvedTimeSpan input)
          * Fin 10000)) / Fin 10000)"
    by (simp add: reported_rates componentRateST_def)
  have r2: "corrosionRateLT (performComponentCalculations fl y input) =
        rd fl (math_round (rd fl (calculateLongTermCorrosionRate_fl fl
          (resolvedInitialThickness input) (actualThickness input) (resolvedTotalTimeSpan input)
          * Fin 10000)) / Fin 10000)"
    by (simp add: reported_rates componentRateLT_def)
  have d: "resolvedTimeSpan (input\<lparr>timeSpan := Some (Fin 0)\<rparr>) = Fin 10
   \<and> resolvedTotalTimeSpan (input\<lparr>totalTimeSpan := Some (Fin 0)\<rparr>) = resolvedTimeSpan input
   \<and> resolvedPreviousThickness (input\<lparr>previousThickness := Some (Fin 0)\<rparr>) =
        or_else (nominalThickness input) (actualThickness input)
   \<and> resolvedPreviousThickness (input\<lparr>previousThickness := Some (Fin 0), nominalThickness := Some (Fin 0)\<rparr>) =
        actualThickness input
   \<and> resolvedInitialThickness (input\<lparr>initialThickness := Some (Fin 0)\<rparr>) =
        or_else (nominalThickness input) (resolvedPreviousThickness input)
   \<and> resolvedInitialThickness (input\<lparr>initialThickness := Some (Fin 0), nominalThickness := Some (Fin 0)\<rparr>) =
        resolvedPreviousThickness (input\<lparr>nominalThickness := Some (Fin 0)\<rparr>)"
    by (simp add: resolved_defs or_else_def truthy_def)
  have n: "resolvedTimeSpan input \<noteq> Fin 0 \<and> resolvedTotalTimeSpan input \<noteq> Fin 0"
    by (auto simp add: resolved_defs or_else_def truthy_def split: option.splits)
  have pos1: "(timeSpan input = None \<or> (\<exists>t. 0 \<le> t \<and> timeSpan input = Some (Fin t)))
        \<longrightarrow> \<not> resolvedTimeSpan input \<le> Fin 0"
    by (auto simp add: resolved_defs or_else_def truthy_def split: option.splits)
  have pos2: "(timeSpan input = None \<or> (\<exists>t. 0 \<le> t \<and> timeSpan input = Some (Fin t)))
        \<and> (totalTimeSpan input = None \<or> (\<exists>t. 0 \<le> t \<and> totalTimeSpan input = Some (Fin t)))
        \<longrightarrow> \<not> resolvedTotalTimeSpan input \<le> Fin 0"
    by (auto simp add: resolved_defs or_else_def truthy_def split: option.splits)
  have neg1: "\<forall>t < 0. timeSpan input = Some (Fin t) \<longrightarrow>
         resolvedTimeSpan input = Fin t \<and> resolvedTimeSpan input \<le> Fin 0
         \<and> componentRateST fl input = MIN_NOMINAL_RATE_fl fl
         \<and> corrosionRateST (performComponentCalculations fl y input) =
             rd fl (math_round (rd fl (MIN_NOMINAL_RATE_fl fl * Fin 10000)) / Fin 10000)"
    by (auto simp add: reported_rates componentRateST_def calculateShortTermCorrosionRate_fl_def
        resolved_defs or_else_def truthy_def)
  have neg2: "\<forall>t < 0. totalTimeSpan input = Some (Fin t) \<longrightarrow>
         resolvedTotalTimeSpan input = Fin t \<and> resolvedTotalTimeSpan input \<le> Fin 0
         \<and> componentRateLT fl input = MIN_NOMINAL_RATE_fl fl
         \<and> corrosionRateLT (performComponentCalculations fl y input) =
             rd fl (math_round (rd fl (MIN_NOMINAL_RATE_fl fl * Fin 10000)) / Fin 10000)"
    by (auto simp add: reported_rates componentRateLT_def calculateLongTermCorrosionRate_fl_def
        resolved_defs or_else_def truthy_def)
  show ?thesis
    using p1 p2 p3 p4 r1 r2 d n pos1 pos2 neg1 neg2 by blast
qed

theorem zero_inputs_are_absent_witness:
  "timeSpan sampleShellInput = Some (Fin 4) \<and> totalTimeSpan sampleShellInput = Some (Fin 8)
   \<and> \<not> resolvedTimeSpan sampleShellInput \<le> Fin 0
   \<and> \<not> resolvedTotalTimeSpan sampleShellInput \<le> Fin 0
   \<and> performComponentCalculations (\<lambda>x. x) (Fin 2026) (sampleShellInput\<lparr>timeSpan := Some (Fin 0)\<rparr>)
       = performComponentCalculations (\<lambda>x. x) (Fin 2026) (sampleShellInput\<lparr>timeSpan := None\<rparr>)
   \<and> timeSpan negativeSpanInput = Some (Fin (- 4))
   \<and> resolvedTimeSpan negativeSpanInput = Fin (- 4)
   \<and> componentRateST (\<lambda>x. x) negativeSpanInput = MIN_NOMINAL_RATE_fl (\<lambda>x. x)"
proof -
  have a: "timeSpan sampleShellInput = Some (Fin 4)"
    and b: "totalTimeSpan sampleShellInput = Some (Fin 8)"
    by (simp_all add: sampleShellInput_def)
  have c: "timeSpan negativeSpanInput = Some (Fin (- 4))"
    by (simp add: negativeSpanInput_def)
  have "\<not> resolvedTimeSpan sampleShellInput \<le> Fin 0
     \<and> \<not> resolvedTotalTimeSpan sampleShellInput \<le> Fin 0
     \<and> performComponentCalculations (\<lambda>x. x) (Fin 2026) (sampleShellInput\<lparr>timeSpan := Some (Fin 0)\<rparr>)
       = performComponentCalculations (\<lambda>x. x) (Fin 2026) (sampleShellInput\<lparr>timeSpan := None\<rparr>)"
    using zero_inputs_are_absent [of "\<lambda>x. x" "Fin 2026" sampleShellInput] a b by auto
  moreover have "resolvedTimeSpan negativeSpanInput = Fin (- 4)
     \<and> componentRateST (\<lambda>x. x) negativeSpanInput = MIN_NOMINAL_RATE_fl (\<lambda>x. x)"
    using zero_inputs_are_absent [of "\<lambda>x. x" "Fin 2026" negativeSpanInput] c by auto
  ultimately show ?thesis using a b c by blast
qed

text \<open>
  The branch for a span of at most 0 is reachable through this entry point: a span of -4
  years is handed on as it is. With 0.375 in before and 0.5 in now the raw rate would be
  0.03125; the short-term rate is 0.001, from that branch.
\<close>

theorem negative_span_reaches_floor_branch:
  "timeSpan negativeSpanInput = Some (Fin (- 4))
   \<and> resolvedTimeSpan negativeSpanInput = Fin (- 4)
   \<and> resolvedTimeSpan negativeSpanInput \<le> Fin 0
   \<and> resolvedTotalTimeSpan negativeSpanInput \<le> Fin 0
   \<and> (resolvedPreviousThickness negativeSpanInput - actualThickness negativeSpanInput)
        / resolvedTimeSpan negativeSpanInput = Fin 0.03125
   \<and> componentRateST (\<lambda>x. x) negativeSpanInput = Fin 0.001
   \<and> corrosionRateST (performComponentCalculations (\<lambda>x. x) (Fin 2026) negativeSpanInput) = Fin 0.001"
  by (simp add: negativeSpanInput_def resolved_defs or_else_def truthy_def componentRateST_def
      calculateShortTermCorrosionRate_fl_def MIN_NOMINAL_RATE_fl_def reported_rates)

section \<open>The stress interpolator\<close>

subsection \<open>The two queries\<close>

lemma asc_limit1_empty: "orderByAscLimit1 [] = []"
  by (simp add: orderByAscLimit1_def)

lemma desc_limit1_empty: "orderByDescLimit1 [] = []"
  by (simp add: orderByDescLimit1_def)

lemma asc_limit1:
  assumes "xs \<noteq> []"
  shows "\<exists>m. orderByAscLimit1 xs = [m] \<and> m \<in> set xs
           \<and> (\<forall>x \<in> set xs. ms_temperature m \<le> ms_temperature x)"
proof -
  have "sort_key ms_temperature xs \<noteq> []"
    using assms by (metis length_0_conv length_sort)
  then obtain m rest where s: "sort_key ms_temperature xs = m # rest"
    by (cases "sort_key ms_temperature xs") auto
  have "sorted (map ms_temperature (m # rest))"
    using sorted_sort_key [of ms_temperature xs] by (simp only: s)
  then have le: "\<forall>x \<in> set (m # rest). ms_temperature m \<le> ms_temperature x"
    by auto
  have mem: "set (m # rest) = set xs"
    using set_sort [of ms_temperature xs] by (simp only: s)
  have "orderByAscLimit1 xs = [m]"
    by (simp add: orderByAscLimit1_def s)
  moreover have "m \<in> set xs" using mem by auto
  moreover have "\<forall>x \<in> set xs. ms_temperature m \<le> ms_temperature x"
    using le mem by blast
  ultimately show ?thesis by blast
qed

lemma desc_limit1:
  assumes "xs \<noteq> []"
  shows "\<exists>m. orderByDescLimit1 xs = [m] \<and> m \<in> set xs
           \<and> (\<forall>x \<in> set xs. ms_temperature x \<le> ms_temperature m)"
proof -
  have "rev (sort_key ms_temperature xs) \<noteq> []"
    using assms by (metis length_0_conv length_sort rev_is_Nil_conv)
  then obtain m rest where s: "rev (sort_key ms_temperature xs) = m # rest"
    by (cases "rev (sort_key ms_temperature xs)") auto
  then have s': "sort_key ms_temperature xs = rev rest @ [m]"
    by (metis rev.simps(2) rev_rev_ident)
  have "sorted (map ms_temperature (rev rest @ [m]))"
    using sorted_sort_key [of ms_temperature xs] by (simp only: s')
  then have le: "\<forall>x \<in> set (rev rest @ [m]). ms_temperature x \<le> ms_temperature m"
    by (auto simp add: sorted_append)
  have mem: "set (rev rest @ [m]) = set xs"
    using set_sort [of ms_temperature xs] by (simp only: s')
  have "orderByDescLimit1 xs = [m]"
    by (simp add: orderByDescLimit1_def s)
  moreover have "m \<in> set xs" using mem by auto
  moreover have "\<forall>x \<in> set xs. ms_temperature x \<le> ms_temperature m"
    using le mem by blast
  ultimately show ?thesis by blast
qed

lemma lower_filter:
  "set (filter (\<lambda>row. ms_materialSpec row = spec \<and> of_int (ms_temperature row) \<le> T) table)
     = {row \<in> set (materialPoints table spec). of_int (ms_temperature row) \<le> T}"
  by (auto simp add: materialPoints_def)

lemma upper_filter:
  "set (filter (\<lambda>row. ms_materialSpec row = spec \<and> of_int (ms_temperature row) \<ge> T) table)
     = {row \<in> set (materialPoints table spec). T \<le> of_int (ms_temperature row)}"
  by (auto simp add: materialPoints_def)

lemma lowerResult_cases:
  "(lowerResult table spec T = [] \<and> (\<forall>l. \<not> isLowerBound table spec T l))
   \<or> (\<exists>l. lowerResult table spec T = [l] \<and> isLowerBound table spec T l)"
proof (cases "filter (\<lambda>row. ms_materialSpec row = spec \<and> of_int (ms_temperature row) \<le> T) table = []")
  case True
  then have "{row \<in> set (materialPoints table spec). of_int (ms_temperature row) \<le> T} = {}"
    using lower_filter [of spec T table] by simp
  then have "\<forall>l. \<not> isLowerBound table spec T l"
    by (auto simp add: isLowerBound_def)
  then show ?thesis
    using True by (simp add: lowerResult_def desc_limit1_empty)
next
  case False
  from desc_limit1 [OF False] obtain m where
    m: "lowerResult table spec T = [m]"
    and mem: "m \<in> set (filter (\<lambda>row. ms_materialSpec row = spec \<and> of_int (ms_temperature row) \<le> T) table)"
    and le: "\<forall>x \<in> set (filter (\<lambda>row. ms_materialSpec row = spec \<and> of_int (ms_temperature row) \<le> T) table).
               ms_temperature x \<le> ms_temperature m"
    unfolding lowerResult_def by blast
  have "isLowerBound table spec T m"
    using mem le unfolding lower_filter isLowerBound_def by blast
  then show ?thesis using m by blast
qed

lemma upperResult_cases:
  "(upperResult table spec T = [] \<and> (\<forall>u. \<not> isUpperBound table spec T u))
   \<or> (\<exists>u. upperResult table spec T = [u] \<and> isUpperBound table spec T u)"
proof (cases "filter (\<lambda>row. ms_materialSpec row = spec \<and> of_int (ms_temperature row) \<ge> T) table = []")
  case True
  then have "{row \<in> set (materialPoints table spec). T \<le> of_int (ms_temperature row)} = {}"
    using upper_filter [of spec T table] by simp
  then have "\<forall>u. \<not> isUpperBound table spec T u"
    by (auto simp add: isUpperBound_def)
  then show ?thesis
    using True by (simp add: upperResult_def asc_limit1_empty)
next
  case False
  from asc_limit1 [OF False] obtain m where
    m: "upperResult table spec T = [m]"
    and mem: "m \<in> set (filter (\<lambda>row. ms_materialSpec row = spec \<and> of_int (ms_temperature row) \<ge> T) table)"
    and le: "\<forall>x \<in> set (filter (\<lambda>row. ms_materialSpec row = spec \<and> of_int (ms_temperature row) \<ge> T) table).
               ms_temperature m \<le> ms_temperature x"
    unfolding upperResult_def by blast
  have "isUpperBound table spec T m"
    using mem le unfolding upper_filter isUpperBound_def by blast
  then show ?thesis using m by blast
qed

subsection \<open>The interpolation\<close>

lemma get_on_results:
  "lowerResult table spec T = [] \<Longrightarrow> upperResult table spec T = [] \<Longrightarrow>
     getMaterialStressValue fl (Some table) spec T = None"
  "lowerResult table spec T = [] \<Longrightarrow> upperResult table spec T = [u] \<Longrightarrow>
     getMaterialStressValue fl (Some table) spec T = Some (ms_allowableStress u)"
  "lowerResult table spec T = [l] \<Longrightarrow> upperResult table spec T = [] \<Longrightarrow>
     getMaterialStressValue fl (Some table) spec T = Some (ms_allowableStress l)"
  "lowerResult table spec T = [l] \<Longrightarrow> upperResult table spec T = [u] \<Longrightarrow>
     getMaterialStressValue fl (Some table) spec T =
       Some (if ms_temperature l = ms_temperature u then ms_allowableStress l
             else round (interpolated fl l u T))"
  by (simp_all add: getMaterialStressValue_def interpolated_def round_def Let_def)

lemma interpolated_exact:
  "interpolated (\<lambda>x. x) l u T =
     of_int (ms_allowableStress l)
       + (T - of_int (ms_temperature l)) / (of_int (ms_temperature u) - of_int (ms_temperature l))
         * (of_int (ms_allowableStress u) - of_int (ms_allowableStress l))"
  by (simp add: interpolated_def)

lemma int32_bound: "int32 n \<Longrightarrow> \<bar>n\<bar> \<le> 2147483648"
  unfolding int32_def by linarith

lemma rounding_int32_diff:
  assumes "rounding fl" and "int32 m" and "int32 n"
  shows "fl (of_int m - of_int n) = of_int (m - n)"
proof -
  have "\<bar>m - n\<bar> \<le> 2 ^ 53"
    using int32_bound [OF assms(2)] int32_bound [OF assms(3)] by simp
  then have "fl (of_int (m - n)) = of_int (m - n)"
    using assms(1) by (rule rounding_int [rotated])
  then show ?thesis by simp
qed

lemma rounding_int32:
  assumes "rounding fl" and "int32 n"
  shows "fl (of_int n) = of_int n"
proof -
  have "\<bar>n\<bar> \<le> 2 ^ 53"
    using int32_bound [OF assms(2)] by simp
  then show ?thesis
    using assms(1) by (rule rounding_int [rotated])
qed

lemma interpolated_between:
  assumes fl: "rounding fl"
    and lo: "of_int (ms_temperature l) \<le> T" and hi: "T \<le> of_int (ms_temperature u)"
    and ne: "ms_temperature l \<noteq> ms_temperature u"
    and b: "int32 (ms_temperature l)" "int32 (ms_temperature u)"
      "int32 (ms_allowableStress l)" "int32 (ms_allowableStress u)"
  shows "min (ms_allowableStress l) (ms_allowableStress u) \<le> round (interpolated fl l u T)
         \<and> round (interpolated fl l u T) \<le> max (ms_allowableStress l) (ms_allowableStress u)"
proof -
  define t1 where "t1 = real_of_int (ms_temperature l)"
  define j where "j = real_of_int (ms_temperature u - ms_temperature l)"
  define s1 where "s1 = real_of_int (ms_allowableStress l)"
  define s2 where "s2 = real_of_int (ms_allowableStress u)"
  define d where "d = real_of_int (ms_allowableStress u - ms_allowableStress l)"
  define a where "a = fl (T - t1)"
  define c where "c = fl (a / j)"
  define e where "e = fl (c * d)"
  have z: "fl 0 = 0" and o: "fl 1 = 1"
    using fl by (rule rounding_zero, rule rounding_one)
  have flj: "fl (of_int (ms_temperature u) - of_int (ms_temperature l)) = j"
    unfolding j_def using fl b(2) b(1) by (rule rounding_int32_diff)
  have fld: "fl (of_int (ms_allowableStress u) - of_int (ms_allowableStress l)) = d"
    unfolding d_def using fl b(4) b(3) by (rule rounding_int32_diff)
  have fls1: "fl s1 = s1" and fls2: "fl s2 = s2"
    unfolding s1_def s2_def using fl b(3,4) by (simp_all add: rounding_int32)
  have jpos: "0 < j"
    using lo hi ne unfolding j_def by linarith
  have "fl j = j"
    using flj by (simp add: j_def)
  have "0 \<le> T - t1" and "T - t1 \<le> j"
    using lo hi by (simp_all add: t1_def j_def)
  then have a0: "0 \<le> a" and aj: "a \<le> j"
    using rounding_mono [OF fl, of 0 "T - t1"] rounding_mono [OF fl, of "T - t1" j] z \<open>fl j = j\<close>
    by (simp_all add: a_def)
  have "0 \<le> a / j" and "a / j \<le> 1"
    using a0 aj jpos by simp_all
  then have c0: "0 \<le> c" and c1: "c \<le> 1"
    using rounding_mono [OF fl, of 0 "a / j"] rounding_mono [OF fl, of "a / j" 1] z o
    by (simp_all add: c_def)
  have fld': "fl d = d"
    using fld by (simp add: d_def)
  have x: "interpolated fl l u T = fl (s1 + e)"
    unfolding interpolated_def flj fld
    by (simp add: e_def c_def a_def t1_def s1_def)
  have s21: "s2 = s1 + d"
    by (simp add: s1_def s2_def d_def)
  have between: "min s1 s2 \<le> s1 + e \<and> s1 + e \<le> max s1 s2"
  proof (cases "0 \<le> d")
    case True
    then have "0 \<le> c * d" and "c * d \<le> d"
      using c0 c1 by (simp_all add: mult_left_le_one_le)
    then have "0 \<le> e" and "e \<le> d"
      using rounding_mono [OF fl, of 0 "c * d"] rounding_mono [OF fl, of "c * d" d] z fld'
      by (simp_all add: e_def)
    then show ?thesis using True s21 by simp
  next
    case False
    then have dn: "d \<le> 0" by simp
    then have "c * d \<le> 0"
      using c0 by (simp add: mult_nonneg_nonpos)
    moreover have "d \<le> c * d"
      using c1 dn by (metis mult_le_cancel_right2 not_less order_refl linorder_not_le mult.commute mult_1 mult_right_mono_neg)
    ultimately have "e \<le> 0" and "d \<le> e"
      using rounding_mono [OF fl, of "c * d" 0] rounding_mono [OF fl, of d "c * d"] z fld'
      by (simp_all add: e_def)
    then show ?thesis using dn s21 by simp
  qed
  have fmin: "fl (min s1 s2) = min s1 s2" and fmax: "fl (max s1 s2) = max s1 s2"
    using fls1 fls2 by (simp_all add: min_def max_def)
  have lo': "min s1 s2 \<le> fl (s1 + e)"
    using rounding_mono [OF fl, of "min s1 s2" "s1 + e"] between fmin by simp
  have hi': "fl (s1 + e) \<le> max s1 s2"
    using rounding_mono [OF fl, of "s1 + e" "max s1 s2"] between fmax by simp
  have mn: "min s1 s2 = real_of_int (min (ms_allowableStress l) (ms_allowableStress u))"
    and mx: "max s1 s2 = real_of_int (max (ms_allowableStress l) (ms_allowableStress u))"
    by (simp_all add: s1_def s2_def min_def max_def)
  have "round (real_of_int (min (ms_allowableStress l) (ms_allowableStress u))) \<le> round (interpolated fl l u T)"
    using lo' unfolding x mn by (rule round_mono)
  moreover have "round (interpolated fl l u T) \<le> round (real_of_int (max (ms_allowableStress l) (ms_allowableStress u)))"
    using hi' unfolding x mx by (rule round_mono)
  ultimately show ?thesis by simp
qed

subsection \<open>The four cases\<close>

text \<open>
  Claim C9. For every rounding of the arithmetic, every stress table of 32-bit integers,
  material and finite target temperature: a material with no tabulated points gives no
  result, and a material with points has a lower or an upper bound; with an upper bound
  only the result is the stress of an upper bound, with a lower bound only the stress of a
  lower bound; with both, the stress of the lower bound when the two temperatures coincide,
  and otherwise the linear interpolation between the two bounds, as the source computes it,
  rounded to the nearest integer: it lies between the two stresses (no extrapolation) and
  within 1/2 of the interpolation computed.
\<close>

theorem stress_lookup_cases:
  assumes "rounding fl" and "int32Table table"
  shows
  "(materialPoints table spec = [] \<longrightarrow> getMaterialStressValue fl (Some table) spec T = None)
   \<and> (materialPoints table spec \<noteq> [] \<longrightarrow>
        (\<exists>l. isLowerBound table spec T l) \<or> (\<exists>u. isUpperBound table spec T u))
   \<and> ((\<forall>l. \<not> isLowerBound table spec T l) \<and> (\<exists>u. isUpperBound table spec T u) \<longrightarrow>
        (\<exists>u. isUpperBound table spec T u
           \<and> getMaterialStressValue fl (Some table) spec T = Some (ms_allowableStress u)))
   \<and> ((\<exists>l. isLowerBound table spec T l) \<and> (\<forall>u. \<not> isUpperBound table spec T u) \<longrightarrow>
        (\<exists>l. isLowerBound table spec T l
           \<and> getMaterialStressValue fl (Some table) spec T = Some (ms_allowableStress l)))
   \<and> ((\<exists>l. isLowerBound table spec T l) \<and> (\<exists>u. isUpperBound table spec T u) \<longrightarrow>
        (\<exists>l u. isLowerBound table spec T l \<and> isUpperBound table spec T u
           \<and> getMaterialStressValue fl (Some table) spec T =
               Some (if ms_temperature l = ms_temperature u then ms_allowableStress l
                     else round (interpolated fl l u T))
           \<and> (ms_temperature l \<noteq> ms_temperature u \<longrightarrow>
                min (ms_allowableStress l) (ms_allowableStress u) \<le> round (interpolated fl l u T)
                \<and> round (interpolated fl l u T) \<le> max (ms_allowableStress l) (ms_allowableStress u)
                \<and> \<bar>of_int (round (interpolated fl l u T)) - interpolated fl l u T\<bar> \<le> 1 / 2)))"
proof (intro conjI impI)
  assume e: "materialPoints table spec = []"
  then have "\<forall>l. \<not> isLowerBound table spec T l" "\<forall>u. \<not> isUpperBound table spec T u"
    by (simp_all add: isLowerBound_def isUpperBound_def)
  then have "lowerResult table spec T = []" "upperResult table spec T = []"
    using lowerResult_cases [of table spec T] upperResult_cases [of table spec T] by blast+
  then show "getMaterialStressValue fl (Some table) spec T = None"
    by (rule get_on_results)
next
  assume ne: "materialPoints table spec \<noteq> []"
  then obtain r where r: "r \<in> set (materialPoints table spec)"
    by (cases "materialPoints table spec") auto
  show "(\<exists>l. isLowerBound table spec T l) \<or> (\<exists>u. isUpperBound table spec T u)"
  proof (cases "of_int (ms_temperature r) \<le> T")
    case True
    then have "filter (\<lambda>row. ms_materialSpec row = spec \<and> of_int (ms_temperature row) \<le> T) table \<noteq> []"
      using r lower_filter [of spec T table] by (metis (mono_tags, lifting) empty_iff empty_set mem_Collect_eq)
    then have "lowerResult table spec T \<noteq> []"
      using desc_limit1 unfolding lowerResult_def by fastforce
    then show ?thesis using lowerResult_cases [of table spec T] by blast
  next
    case False
    then have "T \<le> of_int (ms_temperature r)" by simp
    then have "filter (\<lambda>row. ms_materialSpec row = spec \<and> of_int (ms_temperature row) \<ge> T) table \<noteq> []"
      using r upper_filter [of spec T table] by (metis (mono_tags, lifting) empty_iff empty_set mem_Collect_eq)
    then have "upperResult table spec T \<noteq> []"
      using asc_limit1 unfolding upperResult_def by fastforce
    then show ?thesis using upperResult_cases [of table spec T] by blast
  qed
next
  assume "(\<forall>l. \<not> isLowerBound table spec T l) \<and> (\<exists>u. isUpperBound table spec T u)"
  then obtain u where "lowerResult table spec T = []" "upperResult table spec T = [u]"
    "isUpperBound table spec T u"
    using lowerResult_cases [of table spec T] upperResult_cases [of table spec T] by blast
  then show "\<exists>u. isUpperBound table spec T u
           \<and> getMaterialStressValue fl (Some table) spec T = Some (ms_allowableStress u)"
    using get_on_results(2) by blast
next
  assume "(\<exists>l. isLowerBound table spec T l) \<and> (\<forall>u. \<not> isUpperBound table spec T u)"
  then obtain l where "lowerResult table spec T = [l]" "upperResult table spec T = []"
    "isLowerBound table spec T l"
    using lowerResult_cases [of table spec T] upperResult_cases [of table spec T] by blast
  then show "\<exists>l. isLowerBound table spec T l
           \<and> getMaterialStressValue fl (Some table) spec T = Some (ms_allowableStress l)"
    using get_on_results(3) by blast
next
  assume "(\<exists>l. isLowerBound table spec T l) \<and> (\<exists>u. isUpperBound table spec T u)"
  then obtain l u where lr: "lowerResult table spec T = [l]" and ur: "upperResult table spec T = [u]"
    and lb: "isLowerBound table spec T l" and ub: "isUpperBound table spec T u"
    using lowerResult_cases [of table spec T] upperResult_cases [of table spec T] by blast
  have g: "getMaterialStressValue fl (Some table) spec T =
               Some (if ms_temperature l = ms_temperature u then ms_allowableStress l
                     else round (interpolated fl l u T))"
    using lr ur by (rule get_on_results(4))
  have b: "ms_temperature l \<noteq> ms_temperature u \<longrightarrow>
                min (ms_allowableStress l) (ms_allowableStress u) \<le> round (interpolated fl l u T)
                \<and> round (interpolated fl l u T) \<le> max (ms_allowableStress l) (ms_allowableStress u)
                \<and> \<bar>of_int (round (interpolated fl l u T)) - interpolated fl l u T\<bar> \<le> 1 / 2"
  proof
    assume ne: "ms_temperature l \<noteq> ms_temperature u"
    have lm: "l \<in> set table" and um: "u \<in> set table"
      using lb ub by (simp_all add: isLowerBound_def isUpperBound_def materialPoints_def)
    have bounds: "int32 (ms_temperature l)" "int32 (ms_temperature u)"
      "int32 (ms_allowableStress l)" "int32 (ms_allowableStress u)"
      using assms(2) lm um by (simp_all add: int32Table_def list_all_iff)
    have lo: "of_int (ms_temperature l) \<le> T" and hi: "T \<le> of_int (ms_temperature u)"
      using lb ub by (simp_all add: isLowerBound_def isUpperBound_def)
    from interpolated_between [OF assms(1) lo hi ne bounds]
    show "min (ms_allowableStress l) (ms_allowableStress u) \<le> round (interpolated fl l u T)
                \<and> round (interpolated fl l u T) \<le> max (ms_allowableStress l) (ms_allowableStress u)
                \<and> \<bar>of_int (round (interpolated fl l u T)) - interpolated fl l u T\<bar> \<le> 1 / 2"
      using of_int_round_abs_le [of "interpolated fl l u T"] by blast
  qed
  show "\<exists>l u. isLowerBound table spec T l \<and> isUpperBound table spec T u
           \<and> getMaterialStressValue fl (Some table) spec T =
               Some (if ms_temperature l = ms_temperature u then ms_allowableStress l
                     else round (interpolated fl l u T))
           \<and> (ms_temperature l \<noteq> ms_temperature u \<longrightarrow>
                min (ms_allowableStress l) (ms_allowableStress u) \<le> round (interpolated fl l u T)
                \<and> round (interpolated fl l u T) \<le> max (ms_allowableStress l) (ms_allowableStress u)
                \<and> \<bar>of_int (round (interpolated fl l u T)) - interpolated fl l u T\<bar> \<le> 1 / 2)"
    using lb ub g b by blast
qed

lemma sample_points:
  "materialPoints sampleStressTable ''SA-516-70'' =
     [\<lparr> ms_materialSpec = ''SA-516-70'', ms_temperature = 200, ms_allowableStress = 19000 \<rparr>,
      \<lparr> ms_materialSpec = ''SA-516-70'', ms_temperature = 100, ms_allowableStress = 20000 \<rparr>,
      \<lparr> ms_materialSpec = ''SA-516-70'', ms_temperature = 300, ms_allowableStress = 17500 \<rparr>]"
  "materialPoints sampleStressTable ''SA-000'' = []"
  by (simp_all add: materialPoints_def sampleStressTable_def)

lemma sample_table_int32: "int32Table sampleStressTable"
  by (simp add: int32Table_def int32_def sampleStressTable_def)

lemma sample_lookups:
  "getMaterialStressValue (\<lambda>x. x) (Some sampleStressTable) ''SA-516-70'' 50 = Some 20000"
  "getMaterialStressValue (\<lambda>x. x) (Some sampleStressTable) ''SA-516-70'' 400 = Some 17500"
  "getMaterialStressValue (\<lambda>x. x) (Some sampleStressTable) ''SA-516-70'' 150 = Some 19500"
  "getMaterialStressValue (\<lambda>x. x) (Some sampleStressTable) ''SA-516-70'' 200 = Some 19000"
  by (simp_all add: getMaterialStressValue_def lowerResult_def upperResult_def
      orderByDescLimit1_def orderByAscLimit1_def sampleStressTable_def sort_key_def Let_def)

theorem stress_lookup_cases_witness:
  "rounding (\<lambda>x. x) \<and> int32Table sampleStressTable
   \<and> materialPoints sampleStressTable ''SA-000'' = []
   \<and> getMaterialStressValue (\<lambda>x. x) (Some sampleStressTable) ''SA-000'' 150 = None
   \<and> (\<forall>l. \<not> isLowerBound sampleStressTable ''SA-516-70'' 50 l)
   \<and> (\<exists>u. isUpperBound sampleStressTable ''SA-516-70'' 50 u
         \<and> getMaterialStressValue (\<lambda>x. x) (Some sampleStressTable) ''SA-516-70'' 50
             = Some (ms_allowableStress u))
   \<and> getMaterialStressValue (\<lambda>x. x) (Some sampleStressTable) ''SA-516-70'' 50 = Some 20000
   \<and> (\<forall>u. \<not> isUpperBound sampleStressTable ''SA-516-70'' 400 u)
   \<and> (\<exists>l. isLowerBound sampleStressTable ''SA-516-70'' 400 l
         \<and> getMaterialStressValue (\<lambda>x. x) (Some sampleStressTable) ''SA-516-70'' 400
             = Some (ms_allowableStress l))
   \<and> getMaterialStressValue (\<lambda>x. x) (Some sampleStressTable) ''SA-516-70'' 400 = Some 17500
   \<and> (\<exists>l u. isLowerBound sampleStressTable ''SA-516-70'' 150 l
         \<and> isUpperBound sampleStressTable ''SA-516-70'' 150 u
         \<and> getMaterialStressValue (\<lambda>x. x) (Some sampleStressTable) ''SA-516-70'' 150 =
             Some (if ms_temperature l = ms_temperature u then ms_allowableStress l
                   else round (interpolated (\<lambda>x. x) l u 150)))
   \<and> getMaterialStressValue (\<lambda>x. x) (Some sampleStressTable) ''SA-516-70'' 150 = Some 19500"
proof -
  let ?r100 = "\<lparr> ms_materialSpec = ''SA-516-70'', ms_temperature = 100, ms_allowableStress = 20000 \<rparr>"
  let ?r200 = "\<lparr> ms_materialSpec = ''SA-516-70'', ms_temperature = 200, ms_allowableStress = 19000 \<rparr>"
  let ?r300 = "\<lparr> ms_materialSpec = ''SA-516-70'', ms_temperature = 300, ms_allowableStress = 17500 \<rparr>"
  note cases = stress_lookup_cases [OF rounding_identity sample_table_int32]
  have none: "getMaterialStressValue (\<lambda>x. x) (Some sampleStressTable) ''SA-000'' 150 = None"
    using cases [of "''SA-000''" 150] sample_points(2) by blast
  have l50: "\<forall>l. \<not> isLowerBound sampleStressTable ''SA-516-70'' 50 l"
    by (auto simp add: isLowerBound_def sample_points)
  have u50: "isUpperBound sampleStressTable ''SA-516-70'' 50 ?r100"
    by (simp add: isUpperBound_def sample_points)
  have c50: "\<exists>u. isUpperBound sampleStressTable ''SA-516-70'' 50 u
         \<and> getMaterialStressValue (\<lambda>x. x) (Some sampleStressTable) ''SA-516-70'' 50
             = Some (ms_allowableStress u)"
    using cases [of "''SA-516-70''" 50] l50 u50 by blast
  have u400: "\<forall>u. \<not> isUpperBound sampleStressTable ''SA-516-70'' 400 u"
    by (auto simp add: isUpperBound_def sample_points)
  have l400: "isLowerBound sampleStressTable ''SA-516-70'' 400 ?r300"
    by (simp add: isLowerBound_def sample_points)
  have c400: "\<exists>l. isLowerBound sampleStressTable ''SA-516-70'' 400 l
         \<and> getMaterialStressValue (\<lambda>x. x) (Some sampleStressTable) ''SA-516-70'' 400
             = Some (ms_allowableStress l)"
    using cases [of "''SA-516-70''" 400] l400 u400 by blast
  have l150: "isLowerBound sampleStressTable ''SA-516-70'' 150 ?r100"
    by (simp add: isLowerBound_def sample_points)
  have u150: "isUpperBound sampleStressTable ''SA-516-70'' 150 ?r200"
    by (simp add: isUpperBound_def sample_points)
  have c150: "\<exists>l u. isLowerBound sampleStressTable ''SA-516-70'' 150 l
         \<and> isUpperBound sampleStressTable ''SA-516-70'' 150 u
         \<and> getMaterialStressValue (\<lambda>x. x) (Some sampleStressTable) ''SA-516-70'' 150 =
             Some (if ms_temperature l = ms_temperature u then ms_allowableStress l
                   else round (interpolated (\<lambda>x. x) l u 150))"
    using cases [of "''SA-516-70''" 150] l150 u150 by blast
  show ?thesis
    using rounding_identity sample_table_int32 none l50 c50 u400 c400 c150 sample_points(2)
      sample_lookups(1,2,3) by blast
qed

section \<open>The aggregation pipeline\<close>

subsection \<open>Grouping\<close>

text \<open>
  The sample reading forms the shell group. A reading whose component type is
  \<^verbatim>\<open>constructor\<close> makes the grouping, and with it the run, throw.
\<close>

lemma sample_group:
  "groupReadings [sampleReading] Map.empty = Inr [''shell'' \<mapsto> [sampleReading]]"
  by (simp add: Let_def or_str_def sampleReading_def objectPrototypeNames_def)

lemma constructor_reading_throws:
  "groupReadings [constructorReading] Map.empty = Inl TypeError
   \<and> recalculate fl parseFloat y (Some inspection) (Some ()) [sampleReading, constructorReading]
       = Inl TypeError"
  by (simp add: recalculate_def Let_def or_str_def sampleReading_def constructorReading_def
      objectPrototypeNames_def)

subsection \<open>Worst-case thickness of a component\<close>

lemma sample_worst_case:
  "worstCaseThickness sampleParseFloat sampleInspection [sampleReading] = (Fin 0.4, Fin 0.42)"
  by (simp add: worstCaseThickness_def readingThicknesses_def readingPrevThicknesses_def
      math_min2_def Let_def or_str_def sampleParseFloat_def sampleReading_def sampleInspection_def)

text \<open>
  Claim C3 says that the worst-case actual thickness of a component is the minimum across
  all the angular sub-readings of its readings, all four angles. The pipeline does not
  compute it. On a shell reading with the sub-readings 0.400, 0.350, 0.410 and 0.390 and
  no stored actual thickness, the minimum across the four angles is 0.350; the pipeline
  reads the first sub-reading alone, and the actual thickness it hands to the calculation
  is 0.400.
\<close>

theorem worst_case_ignores_other_angles:
  "map_sum id (\<lambda>componentGroups. groupOf componentGroups ''shell'')
       (groupReadings [sampleReading] Map.empty) = Inr [sampleReading]
   \<and> r_actualThickness sampleReading = None
   \<and> map sampleParseFloat [''0.400'', ''0.350'', ''0.410'', ''0.390'']
       = [Fin 0.4, Fin 0.35, Fin 0.41, Fin 0.39]
   \<and> claimedWorstCaseActual sampleParseFloat [sampleReading] = Fin 0.35
   \<and> fst (worstCaseThickness sampleParseFloat sampleInspection [sampleReading]) = Fin 0.4
   \<and> actualThickness (componentInput (\<lambda>x. x) sampleParseFloat sampleInspection [sampleReading] ''shell'')
       = Fin 0.4"
proof -
  have c: "claimedWorstCaseActual sampleParseFloat [sampleReading] = Fin 0.35"
    by (simp add: claimedWorstCaseActual_def angleReadings_def sampleReading_def
        sampleParseFloat_def math_min2_def)
  have g: "map_sum id (\<lambda>componentGroups. groupOf componentGroups ''shell'')
       (groupReadings [sampleReading] Map.empty) = Inr [sampleReading]"
    unfolding sample_group by (simp add: groupOf_def)
  have t: "r_actualThickness sampleReading = None"
    "map sampleParseFloat [''0.400'', ''0.350'', ''0.410'', ''0.390'']
       = [Fin 0.4, Fin 0.35, Fin 0.41, Fin 0.39]"
    by (simp_all add: sampleReading_def sampleParseFloat_def)
  have i: "actualThickness (componentInput (\<lambda>x. x) sampleParseFloat sampleInspection [sampleReading] ''shell'')
       = Fin 0.4"
    by (simp add: componentInput_def sample_worst_case)
  show ?thesis
    using c g t i by (simp add: sample_worst_case)
qed

end
